theory Spec2Isabelle
  imports Complex_Main "HOL-Library.Sublist" "HOL-Library.Multiset"
    "HOL-Library.Char_ord" "HOL-Library.List_Lexorder"
begin

section \<open>The junitparser object model read by the script\<close>

text \<open>
  The script reads its input through the junitparser library. The records below hold
  the elements of the XML file: an attribute is \<open>None\<close> where the file omits it, and its
  value otherwise (the model covers files whose numeric attributes, where present, are
  numbers). Python strings are modelled as \<open>string\<close>, read as UTF-8 bytes (byte-wise
  lexicographic order is code-point order); Python's unbounded integers as \<open>int\<close>; a
  float as the real number it denotes (rounding of float additions, infinities and NaN
  are outside the model).
\<close>

datatype result_kind = Failure | Error | Skipped | OtherResult

record junit_result =
  r_kind :: result_kind
  r_message :: "string option"
  r_text :: "string option"

record test_case =
  tc_classname :: "string option"
  tc_name :: "string option"
  tc_time :: "real option"
  tc_result :: "junit_result list"

text \<open>What iterating a suite yields: test cases, or an object of another class.\<close>

datatype suite_child = Case test_case | NotCase

record test_suite =
  ts_name :: "string option"
  ts_tests :: "int option"
  ts_failures :: "int option"
  ts_errors :: "int option"
  ts_skipped :: "int option"
  ts_time :: "real option"
  ts_children :: "suite_child list"

text \<open>
  The getters of the numeric attributes of a suite. The library's \<open>IntAttr\<close> and
  \<open>FloatAttr\<close> hand out the value of an attribute that the element has. When the
  element lacks the attribute they first call \<open>update_statistics\<close> on the suite, which
  counts the cases and their result entries, adds up the times of the cases, rounds the
  sum to three decimals (a tie goes to the even neighbour) and stores all five values in
  the element, over what it held; then they hand out the stored value. The suite is
  changed by the call, so a getter returns the suite too. An object that is not a test
  case counts as a test and has no time and no result.
\<close>

definition round_half_even :: "real \<Rightarrow> int" where
  "round_half_even x =
     (let f = \<lfloor>x\<rfloor>; d = x - of_int f
      in if d < 1 / 2 then f else if 1 / 2 < d then f + 1 else if even f then f else f + 1)"

definition round3 :: "real \<Rightarrow> real" where
  "round3 x = real_of_int (round_half_even (x * 1000)) / 1000"

fun child_time :: "suite_child \<Rightarrow> real" where
  "child_time (Case c) = (case tc_time c of None \<Rightarrow> 0 | Some t \<Rightarrow> t)"
| "child_time NotCase = 0"

fun child_results :: "suite_child \<Rightarrow> junit_result list" where
  "child_results (Case c) = tc_result c"
| "child_results NotCase = []"

definition count_results :: "result_kind \<Rightarrow> suite_child list \<Rightarrow> int" where
  "count_results k chs =
     int (length (filter (\<lambda>r. r_kind r = k) (concat (map child_results chs))))"

definition update_statistics :: "test_suite \<Rightarrow> test_suite" where
  "update_statistics s =
     s \<lparr> ts_tests := Some (int (length (ts_children s))),
         ts_errors := Some (count_results Error (ts_children s)),
         ts_failures := Some (count_results Failure (ts_children s)),
         ts_skipped := Some (count_results Skipped (ts_children s)),
         ts_time := Some (round3 (sum_list (map child_time (ts_children s)))) \<rparr>"

definition get_attr :: "(test_suite \<Rightarrow> 'a option) \<Rightarrow> test_suite \<Rightarrow> 'a option \<times> test_suite" where
  "get_attr field s =
     (case field s of
        Some v \<Rightarrow> (Some v, s)
      | None \<Rightarrow> (field (update_statistics s), update_statistics s))"

text \<open>
  \<open>JUnitXml.fromfile(p)\<close> either raises or yields an object whose iteration gives the
  suites of the file. The file system is a parameter \<open>fromfile\<close> of that type.
\<close>

datatype exn = ParseError string | IOError string

type_synonym junit_files = "string \<Rightarrow> exn + test_suite list"

section \<open>Python's \<open>or\<close> on optional values\<close>

definition int_or :: "int option \<Rightarrow> int \<Rightarrow> int" where
  "int_or a d = (case a of None \<Rightarrow> d | Some n \<Rightarrow> if n = 0 then d else n)"

definition float_or :: "real option \<Rightarrow> real \<Rightarrow> real" where
  "float_or a d = (case a of None \<Rightarrow> d | Some x \<Rightarrow> if x = 0 then d else x)"

definition str_or :: "string option \<Rightarrow> string \<Rightarrow> string" where
  "str_or a d = (case a of None \<Rightarrow> d | Some s \<Rightarrow> if s = [] then d else s)"

text \<open>\<open>os.path.basename\<close> (POSIX): everything after the last slash.\<close>

definition basename :: "string \<Rightarrow> string" where
  "basename p = rev (takeWhile (\<lambda>c. c \<noteq> CHR ''/'') (rev p))"

section \<open>Normalised records\<close>

datatype status = Ok | Fail | Err | Skip

record case_row =
  cr_suite :: string
  cr_classname :: string
  cr_name :: string
  cr_time :: real
  cr_status :: status
  cr_message :: string
  cr_detail :: string

record suite_summary =
  ss_name :: string
  ss_tests :: int
  ss_failures :: int
  ss_errors :: int
  ss_skipped :: int
  ss_time :: real
  ss_file :: string

record report_totals =
  rt_suites :: int
  rt_tests :: int
  rt_failures :: int
  rt_errors :: int
  rt_skipped :: int
  rt_time :: real
  rt_passed :: int

record report_data =
  rd_suites :: "suite_summary list"
  rd_cases :: "case_row list"
  rd_totals :: report_totals

section \<open>Status, message and detail of a case\<close>

text \<open>
  The loop of \<open>_get_test_status\<close> over \<open>case.result\<close>: the first entry that is a
  Failure, an Error or a Skipped decides; an entry of another class is passed over.
  The codes \<open>"ok"\<close>, \<open>"fail"\<close>, \<open>"err"\<close>, \<open>"skip"\<close> are the constructors of
  \<^typ>\<open>status\<close>.
\<close>

fun status_of_results :: "junit_result list \<Rightarrow> status" where
  "status_of_results [] = Ok"
| "status_of_results (r # rs) =
     (if r_kind r = Failure then Fail
      else if r_kind r = Error then Err
      else if r_kind r = Skipped then Skip
      else status_of_results rs)"

definition get_test_status :: "test_case \<Rightarrow> status" where
  "get_test_status c = status_of_results (tc_result c)"

definition get_test_message :: "test_case \<Rightarrow> string" where
  "get_test_message c =
     (case tc_result c of [] \<Rightarrow> [] | r # _ \<Rightarrow> str_or (r_message r) [])"

definition get_test_detail :: "test_case \<Rightarrow> string" where
  "get_test_detail c =
     (case tc_result c of [] \<Rightarrow> [] | r # _ \<Rightarrow> str_or (r_text r) [])"

section \<open>parse_files\<close>

definition case_row_of :: "string \<Rightarrow> test_case \<Rightarrow> case_row" where
  "case_row_of sname c =
     \<lparr> cr_suite = sname,
       cr_classname = str_or (tc_classname c) [],
       cr_name = str_or (tc_name c) [],
       cr_time = float_or (tc_time c) 0,
       cr_status = get_test_status c,
       cr_message = get_test_message c,
       cr_detail = get_test_detail c \<rparr>"

text \<open>The inner loop \<open>for case in suite\<close>, skipping what is not a TestCase.\<close>

fun suite_case_rows :: "string \<Rightarrow> suite_child list \<Rightarrow> case_row list" where
  "suite_case_rows sname [] = []"
| "suite_case_rows sname (NotCase # cs) = suite_case_rows sname cs"
| "suite_case_rows sname (Case c # cs) = case_row_of sname c # suite_case_rows sname cs"

definition suite_name_of :: "string \<Rightarrow> test_suite \<Rightarrow> string" where
  "suite_name_of p s = str_or (ts_name s) (basename p)"

text \<open>
  The summary of a suite: the attributes are read in the order of the source, each
  from the suite as the reads before it left it. The class of a suite has no attribute
  \<open>disabled\<close>, so \<open>getattr(suite, "disabled", 0)\<close> is its default 0.
\<close>

definition suite_summary_of :: "string \<Rightarrow> test_suite \<Rightarrow> suite_summary" where
  "suite_summary_of p s =
     (let (tests_attr, s1) = get_attr ts_tests s;
          tests = int_or tests_attr (int (length (ts_children s1)));
          (failures_attr, s2) = get_attr ts_failures s1;
          failures = int_or failures_attr 0;
          (errors_attr, s3) = get_attr ts_errors s2;
          errors = int_or errors_attr 0;
          (skipped_attr, s4) = get_attr ts_skipped s3;
          skipped = int_or skipped_attr (int_or (Some 0) 0);
          (time_attr, s5) = get_attr ts_time s4;
          time = float_or time_attr 0
      in \<lparr> ss_name = suite_name_of p s,
           ss_tests = tests,
           ss_failures = failures,
           ss_errors = errors,
           ss_skipped = skipped,
           ss_time = time,
           ss_file = basename p \<rparr>)"

text \<open>
  The loop \<open>for suite in xml\<close>: one summary appended to \<open>suites_data\<close> and the
  suite's rows appended to \<open>case_rows\<close>, in document order.
\<close>

fun parse_suites ::
  "string \<Rightarrow> test_suite list \<Rightarrow> suite_summary list \<times> case_row list
     \<Rightarrow> suite_summary list \<times> case_row list" where
  "parse_suites p [] acc = acc"
| "parse_suites p (s # ss) (sd, cr) =
     parse_suites p ss
       (sd @ [suite_summary_of p s],
        cr @ suite_case_rows (suite_name_of p s) (ts_children s))"

text \<open>The loop \<open>for p in paths\<close>; an exception of \<open>fromfile\<close> leaves the function.\<close>

fun parse_paths ::
  "junit_files \<Rightarrow> string list \<Rightarrow> suite_summary list \<times> case_row list
     \<Rightarrow> exn + suite_summary list \<times> case_row list" where
  "parse_paths fromfile [] acc = Inr acc"
| "parse_paths fromfile (p # ps) acc =
     (case fromfile p of
        Inl e \<Rightarrow> Inl e
      | Inr xml \<Rightarrow> parse_paths fromfile ps (parse_suites p xml acc))"

definition totals_of :: "suite_summary list \<Rightarrow> report_totals" where
  "totals_of sd =
     (let tests = sum_list (map ss_tests sd);
          failures = sum_list (map ss_failures sd);
          errors = sum_list (map ss_errors sd);
          skipped = sum_list (map ss_skipped sd)
      in \<lparr> rt_suites = int (length sd),
           rt_tests = tests,
           rt_failures = failures,
           rt_errors = errors,
           rt_skipped = skipped,
           rt_time = sum_list (map ss_time sd),
           rt_passed = tests - failures - errors - skipped \<rparr>)"

definition parse_files :: "junit_files \<Rightarrow> string list \<Rightarrow> exn + report_data" where
  "parse_files fromfile paths =
     (case parse_paths fromfile paths ([], []) of
        Inl e \<Rightarrow> Inl e
      | Inr (sd, cr) \<Rightarrow>
          Inr \<lparr> rd_suites = sd, rd_cases = cr, rd_totals = totals_of sd \<rparr>)"

section \<open>Formatting numbers and text\<close>

definition digit_char :: "nat \<Rightarrow> char" where
  "digit_char d =
     (if d = 0 then CHR ''0'' else if d = 1 then CHR ''1'' else if d = 2 then CHR ''2''
      else if d = 3 then CHR ''3'' else if d = 4 then CHR ''4'' else if d = 5 then CHR ''5''
      else if d = 6 then CHR ''6'' else if d = 7 then CHR ''7'' else if d = 8 then CHR ''8''
      else CHR ''9'')"

text \<open>\<open>str(n)\<close> for an integer: its decimal digits, with a minus sign when negative.\<close>

fun str_nat :: "nat \<Rightarrow> string" where
  "str_nat n =
     (if n < 10 then [digit_char n] else str_nat (n div 10) @ [digit_char (n mod 10)])"

declare str_nat.simps [simp del]

definition str_int :: "int \<Rightarrow> string" where
  "str_int i = (if i < 0 then CHR ''-'' # str_nat (nat (- i)) else str_nat (nat i))"

text \<open>
  The format \<open>.2f\<close>: the value rounded to two decimals (a tie goes to the even
  neighbour), printed with its sign, its integer digits, a point and two decimals.
\<close>

definition fmt2f :: "real \<Rightarrow> string" where
  "fmt2f x =
     (let q = nat (round_half_even (\<bar>x\<bar> * 100))
      in (if x < 0 then ''-'' else []) @ str_nat (q div 100) @ ''.'' @
         [digit_char (q mod 100 div 10), digit_char (q mod 10)])"

definition seconds_fmt :: "real \<Rightarrow> string" where
  "seconds_fmt sec =
     (if 60 \<le> sec then
        (let m = \<lfloor>sec / 60\<rfloor>; s = sec - of_int (m * 60)
         in str_int m @ ''m'' @ fmt2f s @ ''s'')
      else fmt2f sec @ ''s'')"

definition status_code :: "status \<Rightarrow> string" where
  "status_code st =
     (case st of Ok \<Rightarrow> ''ok'' | Fail \<Rightarrow> ''fail'' | Err \<Rightarrow> ''err'' | Skip \<Rightarrow> ''skip'')"

definition label_of :: "status \<Rightarrow> string" where
  "label_of st =
     (case st of Ok \<Rightarrow> ''PASS'' | Fail \<Rightarrow> ''FAIL'' | Err \<Rightarrow> ''ERROR'' | Skip \<Rightarrow> ''SKIP'')"

text \<open>
  \<open>html.escape(x, quote=True)\<close> replaces the ampersand first and then the four other
  characters, which is the character-wise substitution below.
\<close>

definition escape_char :: "char \<Rightarrow> string" where
  \<open>escape_char c =
     (if c = CHR ''&'' then ''&amp;''
      else if c = CHR ''<'' then ''&lt;''
      else if c = CHR ''>'' then ''&gt;''
      else if c = CHR ''"'' then ''&quot;''
      else if c = CHR 0x27 then ''&#x27;''
      else [c])\<close>

definition escape_html :: "string \<Rightarrow> string" where
  "escape_html x = concat (map escape_char x)"

text \<open>
  \<open>str.strip()\<close> removes the white space of Python's \<open>str.isspace\<close> from both ends;
  the list holds the UTF-8 encodings of those code points.
\<close>

definition py_whitespace :: "string list" where
  "py_whitespace =
     [[CHR 0x09], [CHR 0x0A], [CHR 0x0B], [CHR 0x0C], [CHR 0x0D],
      [CHR 0x1C], [CHR 0x1D], [CHR 0x1E], [CHR 0x1F], [CHR 0x20],
      [CHR 0xC2, CHR 0x85], [CHR 0xC2, CHR 0xA0], [CHR 0xE1, CHR 0x9A, CHR 0x80],
      [CHR 0xE2, CHR 0x80, CHR 0x80], [CHR 0xE2, CHR 0x80, CHR 0x81],
      [CHR 0xE2, CHR 0x80, CHR 0x82], [CHR 0xE2, CHR 0x80, CHR 0x83],
      [CHR 0xE2, CHR 0x80, CHR 0x84], [CHR 0xE2, CHR 0x80, CHR 0x85],
      [CHR 0xE2, CHR 0x80, CHR 0x86], [CHR 0xE2, CHR 0x80, CHR 0x87],
      [CHR 0xE2, CHR 0x80, CHR 0x88], [CHR 0xE2, CHR 0x80, CHR 0x89],
      [CHR 0xE2, CHR 0x80, CHR 0x8A], [CHR 0xE2, CHR 0x80, CHR 0xA8],
      [CHR 0xE2, CHR 0x80, CHR 0xA9], [CHR 0xE2, CHR 0x80, CHR 0xAF],
      [CHR 0xE2, CHR 0x81, CHR 0x9F], [CHR 0xE3, CHR 0x80, CHR 0x80]]"

definition ws_head :: "string list \<Rightarrow> string \<Rightarrow> nat" where
  "ws_head ws s = (case find (\<lambda>w. prefix w s) ws of None \<Rightarrow> 0 | Some w \<Rightarrow> length w)"

function lstrip :: "string list \<Rightarrow> string \<Rightarrow> string" where
  "lstrip ws s = (if ws_head ws s = 0 then s else lstrip ws (drop (ws_head ws s) s))"
  by pat_completeness auto
termination
proof (relation "measure (\<lambda>(ws, s). length s)")
  fix ws :: "string list" and s :: string
  assume h: "ws_head ws s \<noteq> 0"
  have "s \<noteq> []"
  proof
    assume "s = []"
    then have "ws_head ws s = 0"
      by (auto simp: ws_head_def find_Some_iff split: option.splits)
    with h show False by simp
  qed
  with h show "((ws, drop (ws_head ws s) s), (ws, s)) \<in> measure (\<lambda>(ws, s). length s)"
    by simp
qed simp

declare lstrip.simps [simp del]

definition strip :: "string \<Rightarrow> string" where
  "strip s = rev (lstrip (map rev py_whitespace) (rev (lstrip py_whitespace s)))"

section \<open>One row of the report\<close>

definition need_details :: "case_row \<Rightarrow> bool" where
  "need_details c \<longleftrightarrow>
     cr_status c = Fail \<or> cr_status c = Err \<or>
     (cr_status c = Skip \<and> (cr_message c \<noteq> [] \<or> cr_detail c \<noteq> []))"

definition details_html :: "case_row \<Rightarrow> string" where
  \<open>details_html c =
     (if need_details c then
        ''\<newline>'' @
        ''      <div class="case-details">\<newline>'' @
        ''        <div class="detail-head">\<newline>'' @
        ''          <span class="pill '' @
        status_code (cr_status c) @
        ''">'' @
        label_of (cr_status c) @
        ''</span>\<newline>'' @
        ''          <span class="detail-msg">'' @
        escape_html (if cr_message c = [] then ''(no message)'' else cr_message c) @
        ''</span>\<newline>'' @
        ''        </div>\<newline>'' @
        ''        <pre>'' @
        escape_html (strip (cr_detail c)) @
        ''</pre>\<newline>'' @
        ''      </div>\<newline>'' @
        ''        ''
      else [])\<close>

definition build_row_html :: "case_row \<Rightarrow> string" where
  \<open>build_row_html c =
     ''\<newline>'' @
     ''    <div class="row'' @
     (if need_details c then '' has-details'' else []) @
     ''" tabindex="0" aria-expanded="false" \<newline>'' @
     ''         data-suite="'' @
     escape_html (cr_suite c) @
     ''" data-classname="'' @
     escape_html (cr_classname c) @
     ''" \<newline>'' @
     ''         data-name="'' @
     escape_html (cr_name c) @
     ''">\<newline>'' @
     ''      <div class="status '' @
     status_code (cr_status c) @
     ''">'' @
     label_of (cr_status c) @
     ''</div>\<newline>'' @
     ''      <div class="nowrap" title="'' @
     escape_html (cr_name c) @
     ''">'' @
     escape_html (cr_name c) @
     ''</div>\<newline>'' @
     ''      <div class="nowrap" title="'' @
     escape_html (cr_classname c) @
     ''">'' @
     escape_html (cr_classname c) @
     ''</div>\<newline>'' @
     ''      <div class="nowrap" title="'' @
     escape_html (cr_suite c) @
     ''">'' @
     escape_html (cr_suite c) @
     ''</div>\<newline>'' @
     ''      <div>'' @
     seconds_fmt (cr_time c) @
     ''</div>\<newline>'' @
     ''      '' @
     details_html c @
     ''\<newline>'' @
     ''    </div>\<newline>'' @
     ''    ''\<close>

section \<open>Grouping by suite and class\<close>

text \<open>
  A Python dictionary keeps its keys in the order of their first insertion; it is an
  association list with distinct keys here. \<open>od_update k f d\<close> is
  \<open>if k not in m: m[k] = d\<close> followed by \<open>m[k] = f(m[k])\<close>.
\<close>

fun od_update :: "string \<Rightarrow> ('v \<Rightarrow> 'v) \<Rightarrow> 'v \<Rightarrow> (string \<times> 'v) list \<Rightarrow> (string \<times> 'v) list" where
  "od_update k f d [] = [(k, f d)]"
| "od_update k f d ((k', v) # kvs) =
     (if k' = k then (k', f v) # kvs else (k', v) # od_update k f d kvs)"

text \<open>\<open>m[k]\<close> for a key taken from \<open>m.keys()\<close>; the empty default is never reached.\<close>

definition od_get :: "(string \<times> 'v list) list \<Rightarrow> string \<Rightarrow> 'v list" where
  "od_get m k = (case map_of m k of None \<Rightarrow> [] | Some v \<Rightarrow> v)"

definition class_key :: "case_row \<Rightarrow> string" where
  "class_key c = (if cr_classname c = [] then ''Default'' else cr_classname c)"

type_synonym 'a grouped = "(string \<times> (string \<times> 'a list) list) list"

definition add_entry :: "(case_row \<Rightarrow> 'a) \<Rightarrow> 'a grouped \<Rightarrow> case_row \<Rightarrow> 'a grouped" where
  "add_entry item st c =
     od_update (cr_suite c) (od_update (class_key c) (\<lambda>l. l @ [item c]) []) [] st"

definition group_cases :: "(case_row \<Rightarrow> 'a) \<Rightarrow> case_row list \<Rightarrow> 'a grouped" where
  "group_cases item cases = foldl (add_entry item) [] cases"

section \<open>The main panel\<close>

record subtotals =
  st_tests :: int
  st_passed :: int
  st_failures :: int
  st_errors :: int
  st_skipped :: int
  st_time :: real

definition count_status :: "status \<Rightarrow> case_row list \<Rightarrow> int" where
  "count_status s cs = int (length (filter (\<lambda>c. cr_status c = s) cs))"

definition subtotals_of :: "case_row list \<Rightarrow> subtotals" where
  "subtotals_of cs =
     \<lparr> st_tests = int (length cs),
       st_passed = count_status Ok cs,
       st_failures = count_status Fail cs,
       st_errors = count_status Err cs,
       st_skipped = count_status Skip cs,
       st_time = sum_list (map cr_time cs) \<rparr>"

text \<open>The cases of a suite: the class lists in the order the classes were first seen.\<close>

definition suite_cases :: "(string \<times> case_row list) list \<Rightarrow> case_row list" where
  "suite_cases classes = concat (map snd classes)"

definition suite_header_html :: "string \<Rightarrow> subtotals \<Rightarrow> string" where
  \<open>suite_header_html suite t =
     ''\<newline>'' @
     ''    <div class="suite-section" data-suite="'' @
     escape_html suite @
     ''">\<newline>'' @
     ''      <div class="suite-header" data-type="suite" data-suite="'' @
     escape_html suite @
     ''">\<newline>'' @
     ''        <div class="suite-title">\<newline>'' @
     ''          <span class="collapse-icon">'' @
     [CHR 0xE2, CHR 0x80, CHR 0x9A, CHR 0xC3, CHR 0xB1, CHR 0xC2, CHR 0xBA] @
     ''</span>\<newline>'' @
     ''          <span class="item-icon">'' @
     [CHR 0xEF, CHR 0xA3, CHR 0xBF, CHR 0xC3, CHR 0xBC, CHR 0xC3, CHR 0xAC, CHR 0xC3, CHR 0x85] @
     ''</span>\<newline>'' @
     ''          <span class="item-text">'' @
     escape_html suite @
     ''</span>\<newline>'' @
     ''        </div>\<newline>'' @
     ''        <div class="suite-summary">\<newline>'' @
     ''          <span class="pill">Tests: '' @
     str_int (st_tests t) @
     ''</span>\<newline>'' @
     ''          <span class="pill ok">PASS: '' @
     str_int (st_passed t) @
     ''</span>\<newline>'' @
     ''          <span class="pill fail">FAIL: '' @
     str_int (st_failures t) @
     ''</span>\<newline>'' @
     ''          <span class="pill err">ERROR: '' @
     str_int (st_errors t) @
     ''</span>\<newline>'' @
     ''          <span class="pill skip">SKIP: '' @
     str_int (st_skipped t) @
     ''</span>\<newline>'' @
     ''          <span class="pill">Time: '' @
     seconds_fmt (st_time t) @
     ''</span>\<newline>'' @
     ''        </div>\<newline>'' @
     ''      </div>\<newline>'' @
     ''      <div class="suite-content">\<newline>''\<close>

definition class_header_html :: "string \<Rightarrow> string \<Rightarrow> subtotals \<Rightarrow> string" where
  \<open>class_header_html suite classname t =
     ''\<newline>'' @
     ''        <div class="class-section" data-suite="'' @
     escape_html suite @
     ''" data-classname="'' @
     escape_html classname @
     ''">\<newline>'' @
     ''          <div class="class-header" data-type="class" data-suite="'' @
     escape_html suite @
     ''" data-classname="'' @
     escape_html classname @
     ''">\<newline>'' @
     ''            <div class="class-title">\<newline>'' @
     ''              <span class="collapse-icon">'' @
     [CHR 0xE2, CHR 0x80, CHR 0x9A, CHR 0xC3, CHR 0xB1, CHR 0xC2, CHR 0xBA] @
     ''</span>\<newline>'' @
     ''              <span class="item-icon">'' @
     [CHR 0xEF, CHR 0xA3, CHR 0xBF, CHR 0xC3, CHR 0xBC, CHR 0xC3, CHR 0xAC, CHR 0xC2, CHR 0xB6] @
     ''</span>\<newline>'' @
     ''              <span class="item-text">'' @
     escape_html classname @
     ''</span>\<newline>'' @
     ''            </div>\<newline>'' @
     ''            <div class="class-summary">\<newline>'' @
     ''              <span class="pill">Tests: '' @
     str_int (st_tests t) @
     ''</span>\<newline>'' @
     ''              <span class="pill ok">PASS: '' @
     str_int (st_passed t) @
     ''</span>\<newline>'' @
     ''              <span class="pill fail">FAIL: '' @
     str_int (st_failures t) @
     ''</span>\<newline>'' @
     ''              <span class="pill err">ERROR: '' @
     str_int (st_errors t) @
     ''</span>\<newline>'' @
     ''              <span class="pill skip">SKIP: '' @
     str_int (st_skipped t) @
     ''</span>\<newline>'' @
     ''              <span class="pill">Time: '' @
     seconds_fmt (st_time t) @
     ''</span>\<newline>'' @
     ''            </div>\<newline>'' @
     ''          </div>\<newline>'' @
     ''          <div class="class-content">\<newline>'' @
     ''            <div class="class-grid">\<newline>'' @
     ''              <div>Status</div>\<newline>'' @
     ''              <div>TestName</div>\<newline>'' @
     ''              <div>Category / Suite</div>\<newline>'' @
     ''              <div>SuiteName</div>\<newline>'' @
     ''              <div>Elapse Time</div>\<newline>'' @
     ''            </div>\<newline>''\<close>

definition class_footer_html :: string where
  \<open>class_footer_html =
     ''\<newline>'' @
     ''          </div>\<newline>'' @
     ''        </div>\<newline>''\<close>

definition suite_footer_html :: string where
  \<open>suite_footer_html =
     ''\<newline>'' @
     ''      </div>\<newline>'' @
     ''    </div>\<newline>''\<close>

definition class_section_html :: "string \<Rightarrow> string \<Rightarrow> case_row list \<Rightarrow> string" where
  "class_section_html suite classname class_cases =
     class_header_html suite classname (subtotals_of class_cases) @
     concat (map build_row_html (sort_key cr_name class_cases)) @
     class_footer_html"

definition suite_section_html :: "string \<Rightarrow> (string \<times> case_row list) list \<Rightarrow> string" where
  "suite_section_html suite classes =
     suite_header_html suite (subtotals_of (suite_cases classes)) @
     concat (map (\<lambda>classname. class_section_html suite classname (od_get classes classname))
       (sort (map fst classes))) @
     suite_footer_html"

definition build_main_content :: "report_data \<Rightarrow> string" where
  "build_main_content data =
     (let structure = group_cases id (rd_cases data)
      in concat (map (\<lambda>suite. suite_section_html suite (od_get structure suite))
           (sort (map fst structure))))"

section \<open>The sidebar\<close>

definition sidebar_head_html :: "string \<Rightarrow> string" where
  \<open>sidebar_head_html title =
     ''<div class="sidebar">\<newline>'' @
     ''<div class="sidebar-header">\<newline>'' @
     ''<div class="sidebar-title">Test Structure</div>\<newline>'' @
     ''<div class="sidebar-search">\<newline>'' @
     ''<input type="search" placeholder="Search '' @
     escape_html title @
     ''..." />\<newline>'' @
     ''</div>\<newline>'' @
     ''<div class="sidebar-content">\<newline>''\<close>

definition sidebar_suite_open :: "string \<Rightarrow> string" where
  \<open>sidebar_suite_open suite =
     ''<div class="sidebar-item suite-item" data-suite="'' @
     escape_html suite @
     ''">\<newline>'' @
     ''  <div class="sidebar-label" data-type="suite" data-suite="'' @
     escape_html suite @
     ''">\<newline>'' @
     ''    <span class="collapse-icon">'' @
     [CHR 0xE2, CHR 0x80, CHR 0x9A, CHR 0xC3, CHR 0xB1, CHR 0xC2, CHR 0xBA] @
     ''</span>\<newline>'' @
     ''    <span class="item-icon">'' @
     [CHR 0xEF, CHR 0xA3, CHR 0xBF, CHR 0xC3, CHR 0xBC, CHR 0xC3, CHR 0xAC, CHR 0xC3, CHR 0x85] @
     ''</span>\<newline>'' @
     ''    <span class="item-text">'' @
     escape_html suite @
     ''</span>\<newline>'' @
     ''  </div>\<newline>'' @
     ''  <div class="sidebar-children suite-children">\<newline>''\<close>

definition sidebar_class_open :: "string \<Rightarrow> string \<Rightarrow> string" where
  \<open>sidebar_class_open suite classname =
     ''    <div class="sidebar-item class-item" data-suite="'' @
     escape_html suite @
     ''" data-classname="'' @
     escape_html classname @
     ''">\<newline>'' @
     ''      <div class="sidebar-label" data-type="class" data-suite="'' @
     escape_html suite @
     ''" data-classname="'' @
     escape_html classname @
     ''">\<newline>'' @
     ''        <span class="collapse-icon">'' @
     [CHR 0xE2, CHR 0x80, CHR 0x9A, CHR 0xC3, CHR 0xB1, CHR 0xC2, CHR 0xBA] @
     ''</span>\<newline>'' @
     ''        <span class="item-icon">'' @
     [CHR 0xEF, CHR 0xA3, CHR 0xBF, CHR 0xC3, CHR 0xBC, CHR 0xC3, CHR 0xAC, CHR 0xC2, CHR 0xB6] @
     ''</span>\<newline>'' @
     ''        <span class="item-text">'' @
     escape_html classname @
     ''</span>\<newline>'' @
     ''      </div>\<newline>'' @
     ''      <div class="sidebar-children class-children">\<newline>''\<close>

definition sidebar_case_html :: "string \<Rightarrow> string \<Rightarrow> string \<Rightarrow> string" where
  \<open>sidebar_case_html suite classname name =
     ''        <div class="sidebar-item case-item" data-suite="'' @
     escape_html suite @
     ''" data-classname="'' @
     escape_html classname @
     ''" data-name="'' @
     escape_html name @
     ''">\<newline>'' @
     ''          <div class="sidebar-label" data-type="case" data-suite="'' @
     escape_html suite @
     ''" data-classname="'' @
     escape_html classname @
     ''" data-name="'' @
     escape_html name @
     ''">\<newline>'' @
     ''            <span class="item-icon">'' @
     [CHR 0xEF, CHR 0xA3, CHR 0xBF, CHR 0xC3, CHR 0xBC, CHR 0xC3, CHR 0x9F, CHR 0xE2, CHR 0x84, CHR 0xA2] @
     ''</span>\<newline>'' @
     ''            <span class="item-text">'' @
     escape_html name @
     ''</span>\<newline>'' @
     ''          </div>\<newline>'' @
     ''        </div>\<newline>''\<close>

definition sidebar_class_close :: string where
  \<open>sidebar_class_close =
     ''      </div>\<newline>'' @
     ''    </div>\<newline>''\<close>

definition sidebar_suite_close :: string where
  \<open>sidebar_suite_close =
     ''  </div>\<newline>'' @
     ''</div>\<newline>''\<close>

definition sidebar_foot_html :: string where
  \<open>sidebar_foot_html =
     ''</div>\<newline>'' @
     ''</div>\<newline>''\<close>

definition sidebar_class_html :: "string \<Rightarrow> string \<Rightarrow> string list \<Rightarrow> string" where
  "sidebar_class_html suite classname names =
     sidebar_class_open suite classname @
     concat (map (sidebar_case_html suite classname) (sort names)) @
     sidebar_class_close"

definition sidebar_suite_html :: "string \<Rightarrow> (string \<times> string list) list \<Rightarrow> string" where
  "sidebar_suite_html suite classes =
     sidebar_suite_open suite @
     concat (map (\<lambda>classname. sidebar_class_html suite classname (od_get classes classname))
       (sort (map fst classes))) @
     sidebar_suite_close"

definition build_sidebar :: "report_data \<Rightarrow> string \<Rightarrow> string" where
  "build_sidebar data title =
     (let structure = group_cases cr_name (rd_cases data)
      in sidebar_head_html title @
         concat (map (\<lambda>suite. sidebar_suite_html suite (od_get structure suite))
           (sort (map fst structure))) @
         sidebar_foot_html)"

section \<open>The page\<close>

text \<open>
  The page is one template: the style sheet and the script are fixed text
  (\<open>page_text_01\<close> to \<open>page_text_33\<close>, in the order of the template), and the title,
  the sidebar, the time stamp, the totals and the main panel are spliced in. The time
  stamp \<open>now\<close> is the clock reading, formatted, taken when the page is rendered.
\<close>

definition page_text_01 :: string where
  \<open>page_text_01 =
     ''<!doctype html>\<newline>'' @
     ''<html lang="zh-Hant">\<newline>'' @
     ''<head>\<newline>'' @
     ''<meta charset="utf-8" />\<newline>'' @
     ''<meta name="viewport" content="width=device-width,initial-scale=1" />\<newline>'' @
     ''<title>''\<close>

definition page_text_02 :: string where
  \<open>page_text_02 =
     ''</title>\<newline>'' @
     ''<style>\<newline>'' @
     ''  :root { --ok:#2e7d32; --skip:#8d6e63; --fail:#c62828; --err:#6a1b9a; --fg:#1f2937; --muted:#6b7280; }\<newline>'' @
     ''  body { font-family: ui-sans-serif, system-ui, -apple-system, "Noto Sans TC", Arial, "Segoe UI"; color: var(--fg); margin: 0; }\<newline>'' @
     ''\<newline>'' @
     ''  /* Layout */\<newline>'' @
     ''  .container {\<newline>'' @
     ''    display: flex !important;\<newline>'' @
     ''    min-height: 100vh;\<newline>'' @
     ''    flex-direction: row !important;\<newline>'' @
     ''    width: 100%;\<newline>'' @
     ''    background: #f0f0f0;\<newline>'' @
     ''  }\<newline>'' @
     ''  .sidebar {\<newline>'' @
     ''    width: 300px !important;\<newline>'' @
     ''    min-width: 300px !important;\<newline>'' @
     ''    background: #f8fafc;\<newline>'' @
     ''    border-right: 2px solid #e2e8f0;\<newline>'' @
     ''    overflow-y: auto;\<newline>'' @
     ''    flex-shrink: 0 !important;\<newline>'' @
     ''    flex-grow: 0 !important;\<newline>'' @
     ''  }\<newline>'' @
     ''  .main-content {\<newline>'' @
     ''    flex: 1 !important;\<newline>'' @
     ''    flex-grow: 1 !important;\<newline>'' @
     ''    padding: 24px;\<newline>'' @
     ''    overflow-x: auto;\<newline>'' @
     ''    min-width: 0;\<newline>'' @
     ''    background: #ffffff;\<newline>'' @
     ''  }\<newline>''\<close>

definition page_text_03 :: string where
  \<open>page_text_03 =
     ''\<newline>'' @
     ''  /* Sidebar Styles */\<newline>'' @
     ''  .sidebar-header {\<newline>'' @
     ''    padding: 16px;\<newline>'' @
     ''    border-bottom: 1px solid #e2e8f0;\<newline>'' @
     ''    background: #f8fafc;\<newline>'' @
     ''  }\<newline>'' @
     ''  .sidebar-title {\<newline>'' @
     ''    font-weight: 600;\<newline>'' @
     ''    font-size: 16px;\<newline>'' @
     ''    color: #334155;\<newline>'' @
     ''    margin-bottom: 12px;\<newline>'' @
     ''  }\<newline>'' @
     ''  .sidebar-search {\<newline>'' @
     ''    position: relative;\<newline>'' @
     ''  }\<newline>'' @
     ''  .sidebar-search input {\<newline>'' @
     ''    width: 100%;\<newline>'' @
     ''    padding: 10px 12px;\<newline>'' @
     ''    border: 1px solid #d1d5db;\<newline>'' @
     ''    border-radius: 8px;\<newline>'' @
     ''    background: #fff;\<newline>'' @
     ''    font-size: 13px;\<newline>'' @
     ''    color: #374151;\<newline>'' @
     ''    transition: all 0.2s ease;\<newline>'' @
     ''    box-sizing: border-box;\<newline>'' @
     ''    font-family: inherit;\<newline>'' @
     ''  }\<newline>'' @
     ''  .sidebar-search input:focus {\<newline>'' @
     ''    border-color: #2563eb;\<newline>''\<close>

definition page_text_04 :: string where
  \<open>page_text_04 =
     ''    box-shadow: 0 0 0 3px rgba(37,99,235,0.15);\<newline>'' @
     ''    outline: none;\<newline>'' @
     ''    background: #fafbfc;\<newline>'' @
     ''  }\<newline>'' @
     ''  .sidebar-search input::placeholder {\<newline>'' @
     ''    color: #9ca3af;\<newline>'' @
     ''    font-style: italic;\<newline>'' @
     ''  }\<newline>'' @
     ''  .sidebar-content { padding: 8px; }\<newline>'' @
     ''  .sidebar-item { margin: 2px 0; }\<newline>'' @
     ''  .sidebar-label {\<newline>'' @
     ''    display: flex;\<newline>'' @
     ''    align-items: center;\<newline>'' @
     ''    padding: 8px 12px;\<newline>'' @
     ''    cursor: pointer;\<newline>'' @
     ''    border-radius: 6px;\<newline>'' @
     ''    font-size: 13px;\<newline>'' @
     ''    transition: all 0.2s ease;\<newline>'' @
     ''    user-select: none;\<newline>'' @
     ''    border: 1px solid transparent;\<newline>'' @
     ''  }\<newline>'' @
     ''  .sidebar-label:hover {\<newline>'' @
     ''    background: #f1f5f9;\<newline>'' @
     ''    border-color: #e2e8f0;\<newline>'' @
     ''  }\<newline>'' @
     ''  .sidebar-label:active {\<newline>'' @
     ''    background: #e2e8f0;\<newline>'' @
     ''    transform: translateY(1px);\<newline>'' @
     ''  }\<newline>'' @
     ''\<newline>''\<close>

definition page_text_05 :: string where
  \<open>page_text_05 =
     ''  .collapse-icon {\<newline>'' @
     ''    width: 16px;\<newline>'' @
     ''    height: 16px;\<newline>'' @
     ''    display: flex;\<newline>'' @
     ''    align-items: center;\<newline>'' @
     ''    justify-content: center;\<newline>'' @
     ''    font-size: 10px;\<newline>'' @
     ''    color: #64748b;\<newline>'' @
     ''    margin-right: 8px;\<newline>'' @
     ''    transition: transform 0.2s ease;\<newline>'' @
     ''    flex-shrink: 0;\<newline>'' @
     ''  }\<newline>'' @
     ''  .sidebar-item.collapsed .collapse-icon {\<newline>'' @
     ''    transform: rotate(-90deg);\<newline>'' @
     ''  }\<newline>'' @
     ''  .case-item .collapse-icon {\<newline>'' @
     ''    visibility: hidden;\<newline>'' @
     ''  }\<newline>'' @
     ''\<newline>'' @
     ''  .item-icon {\<newline>'' @
     ''    margin-right: 8px;\<newline>'' @
     ''    font-size: 14px;\<newline>'' @
     ''    flex-shrink: 0;\<newline>'' @
     ''  }\<newline>'' @
     ''  .item-text {\<newline>'' @
     ''    flex: 1;\<newline>'' @
     ''    overflow: hidden;\<newline>'' @
     ''    text-overflow: ellipsis;\<newline>'' @
     ''    white-space: nowrap;\<newline>'' @
     ''    font-weight: 500;\<newline>''\<close>

definition page_text_06 :: string where
  \<open>page_text_06 =
     ''  }\<newline>'' @
     ''\<newline>'' @
     ''  .sidebar-children {\<newline>'' @
     ''    margin-left: 20px;\<newline>'' @
     ''    overflow: hidden;\<newline>'' @
     ''    transition: all 0.3s cubic-bezier(0.4, 0, 0.2, 1);\<newline>'' @
     ''    border-left: 2px solid #e2e8f0;\<newline>'' @
     ''    margin-top: 4px;\<newline>'' @
     ''    padding-left: 12px;\<newline>'' @
     ''  }\<newline>'' @
     ''  .sidebar-item.collapsed .sidebar-children {\<newline>'' @
     ''    max-height: 0;\<newline>'' @
     ''    opacity: 0;\<newline>'' @
     ''    margin-top: 0;\<newline>'' @
     ''    padding-top: 0;\<newline>'' @
     ''    padding-bottom: 0;\<newline>'' @
     ''  }\<newline>'' @
     ''\<newline>'' @
     ''  .suite-item .sidebar-label {\<newline>'' @
     ''    font-weight: 600;\<newline>'' @
     ''    color: #1e40af;\<newline>'' @
     ''    background: linear-gradient(135deg, #eff6ff 0%, #dbeafe 100%);\<newline>'' @
     ''    border-color: #bfdbfe;\<newline>'' @
     ''  }\<newline>'' @
     ''  .suite-item .sidebar-label:hover {\<newline>'' @
     ''    background: linear-gradient(135deg, #dbeafe 0%, #bfdbfe 100%);\<newline>'' @
     ''    border-color: #93c5fd;\<newline>'' @
     ''  }\<newline>'' @
     ''\<newline>'' @
     ''  .class-item .sidebar-label {\<newline>''\<close>

definition page_text_07 :: string where
  \<open>page_text_07 =
     ''    font-weight: 600;\<newline>'' @
     ''    color: #059669;\<newline>'' @
     ''    background: linear-gradient(135deg, #f0fdf4 0%, #dcfce7 100%);\<newline>'' @
     ''    border-color: #bbf7d0;\<newline>'' @
     ''  }\<newline>'' @
     ''  .class-item .sidebar-label:hover {\<newline>'' @
     ''    background: linear-gradient(135deg, #dcfce7 0%, #bbf7d0 100%);\<newline>'' @
     ''    border-color: #86efac;\<newline>'' @
     ''  }\<newline>'' @
     ''\<newline>'' @
     ''  .case-item .sidebar-label {\<newline>'' @
     ''    color: #374151;\<newline>'' @
     ''    padding-left: 28px;\<newline>'' @
     ''    background: #fff;\<newline>'' @
     ''    border-color: #f1f5f9;\<newline>'' @
     ''  }\<newline>'' @
     ''  .case-item .sidebar-label:hover {\<newline>'' @
     ''    background: #f8fafc;\<newline>'' @
     ''    border-color: #e2e8f0;\<newline>'' @
     ''  }\<newline>'' @
     ''\<newline>'' @
     ''  /* Main Content Styles */\<newline>'' @
     ''  h1 { font-size: 20px; margin: 0 0 12px; }\<newline>'' @
     ''  .pill { padding:4px 10px; border-radius:999px; font-size:12px; background:#eef2ff; }\<newline>'' @
     ''  .pill.ok { background:#e8f5e9; color:var(--ok); }\<newline>'' @
     ''  .pill.fail { background:#ffebee; color:var(--fail); }\<newline>'' @
     ''  .pill.err { background:#f3e5f5; color:var(--err); }\<newline>'' @
     ''  .pill.skip { background:#efebe9; color:var(--skip); }\<newline>'' @
     ''  .muted { color: var(--muted); font-size:12px; }\<newline>'' @
     ''\<newline>''\<close>

definition page_text_08 :: string where
  \<open>page_text_08 =
     ''  /* Suite and Class Section Styles */\<newline>'' @
     ''  .suite-section {\<newline>'' @
     ''    margin-bottom: 24px;\<newline>'' @
     ''    border: 1px solid #e2e8f0;\<newline>'' @
     ''    border-radius: 12px;\<newline>'' @
     ''    overflow: hidden;\<newline>'' @
     ''    background: #ffffff;\<newline>'' @
     ''    box-shadow: 0 1px 3px rgba(0,0,0,0.1);\<newline>'' @
     ''  }\<newline>'' @
     ''\<newline>'' @
     ''  .suite-header {\<newline>'' @
     ''    display: flex;\<newline>'' @
     ''    justify-content: space-between;\<newline>'' @
     ''    align-items: center;\<newline>'' @
     ''    padding: 16px 20px;\<newline>'' @
     ''    background: linear-gradient(135deg, #eff6ff 0%, #dbeafe 100%);\<newline>'' @
     ''    border-bottom: 1px solid #bfdbfe;\<newline>'' @
     ''    cursor: pointer;\<newline>'' @
     ''    transition: all 0.2s ease;\<newline>'' @
     ''  }\<newline>'' @
     ''  .suite-header:hover {\<newline>'' @
     ''    background: linear-gradient(135deg, #dbeafe 0%, #bfdbfe 100%);\<newline>'' @
     ''  }\<newline>'' @
     ''\<newline>'' @
     ''  .suite-title {\<newline>'' @
     ''    display: flex;\<newline>'' @
     ''    align-items: center;\<newline>'' @
     ''    font-weight: 600;\<newline>'' @
     ''    font-size: 16px;\<newline>'' @
     ''    color: #1e40af;\<newline>''\<close>

definition page_text_09 :: string where
  \<open>page_text_09 =
     ''  }\<newline>'' @
     ''\<newline>'' @
     ''  .suite-summary {\<newline>'' @
     ''    display: flex;\<newline>'' @
     ''    gap: 8px;\<newline>'' @
     ''    flex-wrap: wrap;\<newline>'' @
     ''  }\<newline>'' @
     ''\<newline>'' @
     ''  .suite-content {\<newline>'' @
     ''    overflow: hidden;\<newline>'' @
     ''    transition: all 0.3s cubic-bezier(0.4, 0, 0.2, 1);\<newline>'' @
     ''  }\<newline>'' @
     ''  .suite-section.collapsed .suite-content {\<newline>'' @
     ''    max-height: 0;\<newline>'' @
     ''    opacity: 0;\<newline>'' @
     ''    padding-top: 0;\<newline>'' @
     ''    padding-bottom: 0;\<newline>'' @
     ''  }\<newline>'' @
     ''\<newline>'' @
     ''  .class-section {\<newline>'' @
     ''    margin: 16px;\<newline>'' @
     ''    border: 1px solid #e2e8f0;\<newline>'' @
     ''    border-radius: 8px;\<newline>'' @
     ''    overflow: hidden;\<newline>'' @
     ''    background: #f8fafc;\<newline>'' @
     ''  }\<newline>'' @
     ''\<newline>'' @
     ''  .class-header {\<newline>'' @
     ''    display: flex;\<newline>'' @
     ''    justify-content: space-between;\<newline>''\<close>

definition page_text_10 :: string where
  \<open>page_text_10 =
     ''    align-items: center;\<newline>'' @
     ''    padding: 12px 16px;\<newline>'' @
     ''    background: linear-gradient(135deg, #f0fdf4 0%, #dcfce7 100%);\<newline>'' @
     ''    border-bottom: 1px solid #bbf7d0;\<newline>'' @
     ''    cursor: pointer;\<newline>'' @
     ''    transition: all 0.2s ease;\<newline>'' @
     ''  }\<newline>'' @
     ''  .class-header:hover {\<newline>'' @
     ''    background: linear-gradient(135deg, #dcfce7 0%, #bbf7d0 100%);\<newline>'' @
     ''  }\<newline>'' @
     ''\<newline>'' @
     ''  .class-title {\<newline>'' @
     ''    display: flex;\<newline>'' @
     ''    align-items: center;\<newline>'' @
     ''    font-weight: 600;\<newline>'' @
     ''    font-size: 14px;\<newline>'' @
     ''    color: #059669;\<newline>'' @
     ''  }\<newline>'' @
     ''\<newline>'' @
     ''  .class-summary {\<newline>'' @
     ''    display: flex;\<newline>'' @
     ''    gap: 6px;\<newline>'' @
     ''    flex-wrap: wrap;\<newline>'' @
     ''  }\<newline>'' @
     ''\<newline>'' @
     ''  .class-content {\<newline>'' @
     ''    overflow: hidden;\<newline>'' @
     ''    transition: all 0.3s cubic-bezier(0.4, 0, 0.2, 1);\<newline>'' @
     ''  }\<newline>'' @
     ''  .class-section.collapsed .class-content {\<newline>''\<close>

definition page_text_11 :: string where
  \<open>page_text_11 =
     ''    max-height: 0;\<newline>'' @
     ''    opacity: 0;\<newline>'' @
     ''    padding-top: 0;\<newline>'' @
     ''    padding-bottom: 0;\<newline>'' @
     ''  }\<newline>'' @
     ''\<newline>'' @
     ''  .suite-grid, .class-grid {\<newline>'' @
     ''    display: grid;\<newline>'' @
     ''    grid-template-columns: 80px 2fr 1fr 1fr 100px;\<newline>'' @
     ''    gap: 8px;\<newline>'' @
     ''    margin: 12px 20px 4px;\<newline>'' @
     ''    font-weight: 600;\<newline>'' @
     ''    font-size: 13px;\<newline>'' @
     ''    color: #374151;\<newline>'' @
     ''    padding: 8px 12px;\<newline>'' @
     ''    background: #f9fafb;\<newline>'' @
     ''    border-radius: 6px;\<newline>'' @
     ''  }\<newline>'' @
     ''\<newline>'' @
     ''  .row {\<newline>'' @
     ''    display: grid;\<newline>'' @
     ''    grid-template-columns: 80px 2fr 1fr 1fr 100px;\<newline>'' @
     ''    gap: 8px;\<newline>'' @
     ''    padding: 10px 12px;\<newline>'' @
     ''    border-bottom: 1px solid #e5e7eb;\<newline>'' @
     ''    align-items: start;\<newline>'' @
     ''    margin: 0 20px;\<newline>'' @
     ''    background: #ffffff;\<newline>'' @
     ''    border-radius: 4px;\<newline>'' @
     ''    margin-bottom: 4px;\<newline>''\<close>

definition page_text_12 :: string where
  \<open>page_text_12 =
     ''  }\<newline>'' @
     ''  .row:hover { background:#f9fafb; }\<newline>'' @
     ''  .row.highlighted { background: #fef3c7; border-left: 3px solid #f59e0b; }\<newline>'' @
     ''  .status.ok { color:var(--ok); font-weight:600; }\<newline>'' @
     ''  .status.fail { color:var(--fail); font-weight:600; }\<newline>'' @
     ''  .status.err { color:var(--err); font-weight:600; }\<newline>'' @
     ''  .status.skip { color:var(--skip); font-weight:600; }\<newline>'' @
     ''  details { grid-column: 1 / -1; background:#fff; border:1px solid #e5e7eb; border-radius:8px; padding:8px 10px; }\<newline>'' @
     ''  details pre { overflow:auto; white-space:pre-wrap; word-break:break-word; margin:10px 0 0; }\<newline>'' @
     ''  .summary { display:flex; gap:8px; align-items:center; flex-wrap:wrap; }\<newline>'' @
     ''  .totals { display:flex; gap:8px; flex-wrap:wrap; }\<newline>'' @
     ''  .small { font-size:12px; }\<newline>'' @
     ''  .nowrap { white-space:nowrap; overflow:hidden; text-overflow:ellipsis; }\<newline>'' @
     ''  .controls { display:flex; gap:8px; flex-wrap:wrap; align-items:center; margin: 8px 0 16px; }\<newline>'' @
     ''\<newline>'' @
     ''  /* Search and Filter Styles */\<newline>'' @
     ''  input[type="search"] {\<newline>'' @
     ''    padding: 6px 10px;\<newline>'' @
     ''    border: 1px solid #d1d5db;\<newline>'' @
     ''    border-radius: 6px;\<newline>'' @
     ''    background-color: #fff;\<newline>'' @
     ''    font-family: inherit;\<newline>'' @
     ''    font-size: 14px;\<newline>'' @
     ''    color: #374151;\<newline>'' @
     ''    line-height: 1.5;\<newline>'' @
     ''    transition: border-color 0.2s, box-shadow 0.2s;\<newline>'' @
     ''  }\<newline>'' @
     ''\<newline>'' @
     ''  input[type="search"]:focus {\<newline>'' @
     ''    border-color: #2563eb;\<newline>''\<close>

definition page_text_13 :: string where
  \<open>page_text_13 =
     ''    box-shadow: 0 0 0 2px rgba(37,99,235,0.2);\<newline>'' @
     ''    outline: none;\<newline>'' @
     ''  }\<newline>'' @
     ''\<newline>'' @
     ''  input[type="search"]:hover {\<newline>'' @
     ''    border-color: #9ca3af;\<newline>'' @
     ''  }\<newline>'' @
     ''\<newline>'' @
     ''  select {\<newline>'' @
     ''    padding: 6px 28px 6px 10px;\<newline>'' @
     ''    border: 1px solid #d1d5db;\<newline>'' @
     ''    border-radius: 6px;\<newline>'' @
     ''    background-color: #fff;\<newline>'' @
     ''    font-family: inherit;\<newline>'' @
     ''    font-size: 14px;\<newline>'' @
     ''    color: #374151;\<newline>'' @
     ''    line-height: 1.5;\<newline>'' @
     ''    appearance: none;\<newline>'' @
     ''    -webkit-appearance: none;\<newline>'' @
     ''    -moz-appearance: none;\<newline>'' @
     ''    background-image: url("data:image/svg+xml;base64,PHN2ZyBmaWxsPSJub25lIiBzdHJva2U9IiM2YjcyODAiIHN0cm9rZS13aWR0aD0iMiIgdmlld0JveD0iMCAwIDI0IDI0IiB4bWxucz0iaHR0cDovL3d3dy53My5vcmcvMjAwMC9zdmciPjxwYXRoIGQ9Ik02IDlsNiA2IDYtNiIvPjwvc3ZnPg==");\<newline>'' @
     ''    background-repeat: no-repeat;\<newline>'' @
     ''    background-position: right 8px center;\<newline>'' @
     ''    background-size: 16px;\<newline>'' @
     ''    transition: border-color 0.2s, box-shadow 0.2s;\<newline>'' @
     ''  }\<newline>'' @
     ''\<newline>'' @
     ''  select:focus {\<newline>'' @
     ''    border-color: #2563eb;\<newline>'' @
     ''    box-shadow: 0 0 0 2px rgba(37,99,235,0.2);\<newline>''\<close>

definition page_text_14 :: string where
  \<open>page_text_14 =
     ''    outline: none;\<newline>'' @
     ''  }\<newline>'' @
     ''\<newline>'' @
     ''  select:hover {\<newline>'' @
     ''    border-color: #9ca3af;\<newline>'' @
     ''  }\<newline>'' @
     ''\<newline>'' @
     ''  select option {\<newline>'' @
     ''    padding: 6px 10px;\<newline>'' @
     ''    font-size: 14px;\<newline>'' @
     ''  }\<newline>'' @
     ''\<newline>'' @
     ''  select option:hover {\<newline>'' @
     ''    background-color: #f3f4f6;\<newline>'' @
     ''  }\<newline>'' @
     ''\<newline>'' @
     ''  /* Row Details */\<newline>'' @
     ''  .row.has-details { cursor: pointer; }\<newline>'' @
     ''  .row.has-details:focus { outline: 2px solid #c7d2fe; outline-offset: 2px; }\<newline>'' @
     ''  .case-details { display:none; grid-column: 1 / -1; background:#fff; border:1px solid #e5e7eb; border-radius:8px; padding:10px 12px; margin-top:8px; }\<newline>'' @
     ''  .row.expanded .case-details { display:block; }\<newline>'' @
     ''  .case-details pre { overflow:auto; white-space:pre-wrap; word-break:break-word; margin:10px 0 0; }\<newline>'' @
     ''  .detail-head { display:flex; gap:8px; align-items:center; flex-wrap:wrap; font-weight:600; }\<newline>'' @
     ''  .detail-msg { color:#374151; }\<newline>'' @
     ''\<newline>'' @
     ''  /* Responsive */\<newline>'' @
     ''  @media (max-width: 768px) {\<newline>'' @
     ''    .container { flex-direction: column; }\<newline>'' @
     ''    .sidebar { width: 100%; max-height: 200px; }\<newline>'' @
     ''    .main-content { padding: 16px; }\<newline>''\<close>

definition page_text_15 :: string where
  \<open>page_text_15 =
     ''    .suite-header, .class-header {\<newline>'' @
     ''      flex-direction: column;\<newline>'' @
     ''      align-items: flex-start;\<newline>'' @
     ''      gap: 8px;\<newline>'' @
     ''    }\<newline>'' @
     ''    .suite-summary, .class-summary {\<newline>'' @
     ''      justify-content: flex-start;\<newline>'' @
     ''    }\<newline>'' @
     ''  }\<newline>'' @
     ''</style>\<newline>'' @
     ''</head>\<newline>'' @
     ''<body>\<newline>'' @
     ''  <div class="container">\<newline>'' @
     ''    ''\<close>

definition page_text_16 :: string where
  \<open>page_text_16 =
     ''\<newline>'' @
     ''\<newline>'' @
     ''  </div>\<newline>'' @
     ''  <div class="main-content">\<newline>'' @
     ''    <h1>''\<close>

definition page_text_17 :: string where
  \<open>page_text_17 =
     ''</div>\<newline>'' @
     ''\<newline>'' @
     ''    <div class="totals" style="margin-top:10px;">\<newline>'' @
     ''      <span class="pill">Suite : ''\<close>

definition page_text_18 :: string where
  \<open>page_text_18 =
     ''</span>\<newline>'' @
     ''    </div>\<newline>'' @
     ''    <div class="controls">\<newline>'' @
     ''      <input id="search" type="search" placeholder="Search : Category/Name/Message..." />\<newline>'' @
     ''      <select id="status-filter" title="Status Filter">\<newline>'' @
     ''        <option value="">ALL</option>\<newline>'' @
     ''        <option value="ok">PASS</option>\<newline>'' @
     ''        <option value="fail">FAIL</option>\<newline>'' @
     ''        <option value="err">ERROR</option>\<newline>'' @
     ''        <option value="skip">SKIP</option>\<newline>'' @
     ''      </select>\<newline>'' @
     ''      <select id="sort" title="Sort">\<newline>'' @
     ''        <option value="status">Status</option>\<newline>'' @
     ''        <option value="time">Elapse Time(Long -> Short)</option>\<newline>'' @
     ''        <option value="name">TestName</option>\<newline>'' @
     ''      </select>\<newline>'' @
     ''    </div>\<newline>'' @
     ''\<newline>'' @
     ''    <div id="content">\<newline>'' @
     ''      ''\<close>

definition page_text_19 :: string where
  \<open>page_text_19 =
     ''\<newline>'' @
     ''    </div>\<newline>'' @
     ''  </div>\<newline>'' @
     ''\<newline>'' @
     ''<script>\<newline>'' @
     ''(function(){\<newline>'' @
     ''  const searchEl = document.getElementById(\'search\');\<newline>'' @
     ''  const filterEl = document.getElementById(\'status-filter\');\<newline>'' @
     ''  const sortEl = document.getElementById(\'sort\');\<newline>'' @
     ''  const contentEl = document.getElementById(\'content\');\<newline>'' @
     ''\<newline>'' @
     ''  // collect all rows into an in-memory array for filtering/sorting\<newline>'' @
     ''  const rows = [...contentEl.querySelectorAll(\'.row\')].map(r => {\<newline>'' @
     ''    const cells = r.querySelectorAll(\':scope > div\');\<newline>'' @
     ''    const container = r.closest(\'.class-content\');\<newline>'' @
     ''    const statusKey = labelToKey(cells[0].textContent.trim());\<newline>'' @
     ''    return {\<newline>'' @
     ''      el: r,\<newline>'' @
     ''      container: container,\<newline>'' @
     ''      statusKey: statusKey,\<newline>'' @
     ''      status: cells[0].textContent.trim(),\<newline>'' @
     ''      name: cells[1].textContent.trim().toLowerCase(),\<newline>'' @
     ''      classname: cells[2].textContent.trim().toLowerCase(),\<newline>'' @
     ''      suite: cells[3].textContent.trim().toLowerCase(),\<newline>'' @
     ''      time: parseFloat(cells[4].textContent.trim().replace(\'s\','' @
     [CHR 0x27] @
     ''\')) || 0\<newline>'' @
     ''    };\<newline>'' @
     ''  });\<newline>'' @
     ''\<newline>''\<close>

definition page_text_20 :: string where
  \<open>page_text_20 =
     ''  function labelToKey(s){ return s===\'PASS\'?\'ok\': s===\'FAIL\'?\'fail\' : s===\'ERROR\'?\'err\' : s===\'SKIP\'?\'skip\':'' @
     [CHR 0x27] @
     ''\'; }\<newline>'' @
     ''\<newline>'' @
     ''  function apply(){\<newline>'' @
     ''    const q = (searchEl.value || '' @
     [CHR 0x27] @
     ''\').trim().toLowerCase();\<newline>'' @
     ''    const statusFilter = filterEl.value;\<newline>'' @
     ''    const sortBy = sortEl.value;\<newline>'' @
     ''\<newline>'' @
     ''    // switch\<newline>'' @
     ''    rows.forEach(r => {\<newline>'' @
     ''      const inSearch = !q || (r.name.includes(q) || r.classname.includes(q) || r.suite.includes(q) || (r.el.textContent || '' @
     [CHR 0x27] @
     ''\').toLowerCase().includes(q));\<newline>'' @
     ''      const inStatus = !statusFilter || r.statusKey === statusFilter;\<newline>'' @
     ''      r.el.style.display = (inSearch && inStatus) ? '' @
     [CHR 0x27] @
     ''\' : \'none\';\<newline>'' @
     ''    });\<newline>'' @
     ''\<newline>'' @
     ''    // aquire\<newline>'' @
     ''    const containers = new Set(rows.map(r => r.container));\<newline>'' @
     ''\<newline>'' @
     ''    // sort in vis\<newline>'' @
     ''    containers.forEach(container => {\<newline>'' @
     ''      if (!container) return;\<newline>'' @
     ''\<newline>'' @
     ''      // gain rows\<newline>''\<close>

definition page_text_21 :: string where
  \<open>page_text_21 =
     ''      const visibleRows = rows.filter(r => r.container === container && r.el.style.display !== \'none\');\<newline>'' @
     ''\<newline>'' @
     ''      // sort\<newline>'' @
     ''      visibleRows.sort((a, b) => {\<newline>'' @
     ''        if (sortBy === \'time\') return (b.time || 0) - (a.time || 0);\<newline>'' @
     ''        if (sortBy === \'name\') return (a.name || '' @
     [CHR 0x27] @
     ''\').localeCompare(b.name || '' @
     [CHR 0x27] @
     ''\');\<newline>'' @
     ''        // status sort'' @
     [CHR 0xC3, CHR 0x94, CHR 0xC2, CHR 0xBA, CHR 0xC3, CHR 0xB6] @
     ''ERROR(0) < FAIL(1) < SKIP(2) < PASS(3)\<newline>'' @
     ''        const statusOrder = { \'err\': 0, \'fail\': 1, \'skip\': 2, \'ok\': 3 };\<newline>'' @
     ''        return (statusOrder[a.statusKey] - statusOrder[b.statusKey]) || (b.time - a.time);\<newline>'' @
     ''      });\<newline>'' @
     ''\<newline>'' @
     ''      // reduce reflow\<newline>'' @
     ''      const fragment = document.createDocumentFragment();\<newline>'' @
     ''      visibleRows.forEach(row => fragment.appendChild(row.el));\<newline>'' @
     ''      container.appendChild(fragment);\<newline>'' @
     ''    });\<newline>'' @
     ''\<newline>'' @
     ''    // collapse\<newline>'' @
     ''    document.querySelectorAll(\'.class-section\').forEach(classSection => {\<newline>'' @
     ''      const hasVisibleRows = classSection.querySelectorAll(\'.row[style*="display: none"]\').length <\<newline>'' @
     ''                            classSection.querySelectorAll(\'.row\').length;\<newline>'' @
     ''\<newline>'' @
     ''      if (hasVisibleRows) {\<newline>'' @
     ''        classSection.style.display = ''\<close>

definition page_text_22 :: string where
  \<open>page_text_22 =
     [CHR 0x27] @
     ''\';\<newline>'' @
     ''        classSection.classList.remove(\'collapsed\');\<newline>'' @
     ''      } else {\<newline>'' @
     ''        classSection.style.display = \'none\';\<newline>'' @
     ''      }\<newline>'' @
     ''    });\<newline>'' @
     ''\<newline>'' @
     ''    // suite-section vis\<newline>'' @
     ''    document.querySelectorAll(\'.suite-section\').forEach(suiteSection => {\<newline>'' @
     ''      const hasVisibleClassSections = suiteSection.querySelectorAll(\'.class-section[style*="display: none"]\').length <\<newline>'' @
     ''                                     suiteSection.querySelectorAll(\'.class-section\').length;\<newline>'' @
     ''\<newline>'' @
     ''      if (hasVisibleClassSections) {\<newline>'' @
     ''        suiteSection.style.display = '' @
     [CHR 0x27] @
     ''\';\<newline>'' @
     ''        suiteSection.classList.remove(\'collapsed\');\<newline>'' @
     ''      } else {\<newline>'' @
     ''        suiteSection.style.display = \'none\';\<newline>'' @
     ''      }\<newline>'' @
     ''    });\<newline>'' @
     ''  }\<newline>'' @
     ''\<newline>'' @
     ''  function bindRowToggle() {\<newline>'' @
     ''    const rowEls = contentEl.querySelectorAll(\'.row.has-details\');\<newline>'' @
     ''    rowEls.forEach(r => {\<newline>'' @
     ''      const toggle = () => {\<newline>'' @
     ''        const expanded = r.classList.toggle(\'expanded\');\<newline>'' @
     ''        r.setAttribute(\'aria-expanded\', expanded ? \'true\' : \'false\');\<newline>''\<close>

definition page_text_23 :: string where
  \<open>page_text_23 =
     ''      };\<newline>'' @
     ''      r.addEventListener(\'click\', (e) => {\<newline>'' @
     ''        if (e.target.closest(\'.case-details\')) return;\<newline>'' @
     ''        toggle();\<newline>'' @
     ''      });\<newline>'' @
     ''      r.addEventListener(\'keydown\', (e) => {\<newline>'' @
     ''        if (e.key === \'Enter\' || e.key === \' \') {\<newline>'' @
     ''          e.preventDefault();\<newline>'' @
     ''          toggle();\<newline>'' @
     ''        }\<newline>'' @
     ''      });\<newline>'' @
     ''    });\<newline>'' @
     ''  }\<newline>'' @
     ''\<newline>'' @
     ''  function bindMainContentCollapse() {\<newline>'' @
     ''    // Handle suite collapse/expand\<newline>'' @
     ''    const suiteHeaders = document.querySelectorAll(\'.suite-header\');\<newline>'' @
     ''    suiteHeaders.forEach(header => {\<newline>'' @
     ''      header.addEventListener(\'click\', (e) => {\<newline>'' @
     ''        e.stopPropagation();\<newline>'' @
     ''        const suiteSection = header.closest(\'.suite-section\');\<newline>'' @
     ''        suiteSection.classList.toggle(\'collapsed\');\<newline>'' @
     ''      });\<newline>'' @
     ''    });\<newline>'' @
     ''\<newline>'' @
     ''    // Handle class collapse/expand\<newline>'' @
     ''    const classHeaders = document.querySelectorAll(\'.class-header\');\<newline>'' @
     ''    classHeaders.forEach(header => {\<newline>'' @
     ''      header.addEventListener(\'click\', (e) => {\<newline>'' @
     ''        e.stopPropagation();\<newline>''\<close>

definition page_text_24 :: string where
  \<open>page_text_24 =
     ''        const classSection = header.closest(\'.class-section\');\<newline>'' @
     ''        classSection.classList.toggle(\'collapsed\');\<newline>'' @
     ''      });\<newline>'' @
     ''    });\<newline>'' @
     ''  }\<newline>'' @
     ''\<newline>'' @
     ''  function bindSidebarNavigation() {\<newline>'' @
     ''    const sidebarItems = document.querySelectorAll(\'.sidebar-item\');\<newline>'' @
     ''\<newline>'' @
     ''    sidebarItems.forEach(item => {\<newline>'' @
     ''      item.addEventListener(\'click\', (e) => {\<newline>'' @
     ''        e.stopPropagation();\<newline>'' @
     ''\<newline>'' @
     ''        // Handle collapse/expand for suite and class items\<newline>'' @
     ''        const label = e.target.closest(\'.sidebar-label\');\<newline>'' @
     ''        if (label && (label.getAttribute(\'data-type\') === \'suite\' || label.getAttribute(\'data-type\') === \'class\')) {\<newline>'' @
     ''          const parentItem = label.closest(\'.sidebar-item\');\<newline>'' @
     ''          parentItem.classList.toggle(\'collapsed\');\<newline>'' @
     ''          return;\<newline>'' @
     ''        }\<newline>'' @
     ''\<newline>'' @
     ''        // Handle navigation for all items\<newline>'' @
     ''        // Remove previous highlights\<newline>'' @
     ''        document.querySelectorAll(\'.row.highlighted\').forEach(row => {\<newline>'' @
     ''          row.classList.remove(\'highlighted\');\<newline>'' @
     ''        });\<newline>'' @
     ''\<newline>'' @
     ''        const suite = item.getAttribute(\'data-suite\');\<newline>'' @
     ''        const classname = item.getAttribute(\'data-classname\');\<newline>'' @
     ''        const name = item.getAttribute(\'data-name\');\<newline>''\<close>

definition page_text_25 :: string where
  \<open>page_text_25 =
     ''\<newline>'' @
     ''        // Find matching rows\<newline>'' @
     ''        document.querySelectorAll(\'.row\').forEach(row => {\<newline>'' @
     ''          const rowSuite = row.getAttribute(\'data-suite\');\<newline>'' @
     ''          const rowClassname = row.getAttribute(\'data-classname\');\<newline>'' @
     ''          const rowName = row.getAttribute(\'data-name\');\<newline>'' @
     ''\<newline>'' @
     ''          let match = false;\<newline>'' @
     ''          if (name && classname && suite) {\<newline>'' @
     ''            // Test case level\<newline>'' @
     ''            match = rowSuite === suite && rowClassname === classname && rowName === name;\<newline>'' @
     ''          } else if (classname && suite) {\<newline>'' @
     ''            // Class level\<newline>'' @
     ''            match = rowSuite === suite && rowClassname === classname;\<newline>'' @
     ''          } else if (suite) {\<newline>'' @
     ''            // Suite level\<newline>'' @
     ''            match = rowSuite === suite;\<newline>'' @
     ''          }\<newline>'' @
     ''\<newline>'' @
     ''          if (match) {\<newline>'' @
     ''            row.classList.add(\'highlighted\');\<newline>'' @
     ''            row.scrollIntoView({ behavior: \'smooth\', block: \'center\' });\<newline>'' @
     ''          }\<newline>'' @
     ''        });\<newline>'' @
     ''      });\<newline>'' @
     ''    });\<newline>'' @
     ''  }\<newline>'' @
     ''\<newline>'' @
     ''  function bindSidebarSearch() {\<newline>'' @
     ''    const searchInput = document.querySelector(\'.sidebar-search input\');\<newline>''\<close>

definition page_text_26 :: string where
  \<open>page_text_26 =
     ''    const sidebarItems = document.querySelectorAll(\'.sidebar-item\');\<newline>'' @
     ''    const suiteSections = document.querySelectorAll(\'.suite-section\');\<newline>'' @
     ''    const classSections = document.querySelectorAll(\'.class-section\');\<newline>'' @
     ''    const rows = document.querySelectorAll(\'.row\');\<newline>'' @
     ''\<newline>'' @
     ''    searchInput.addEventListener(\'input\', (e) => {\<newline>'' @
     ''      const query = e.target.value.toLowerCase().trim();\<newline>'' @
     ''\<newline>'' @
     ''      // Reset all sections to visible first\<newline>'' @
     ''      suiteSections.forEach(section => {\<newline>'' @
     ''        section.style.display = '' @
     [CHR 0x27] @
     ''\';\<newline>'' @
     ''        section.classList.remove(\'collapsed\');\<newline>'' @
     ''      });\<newline>'' @
     ''\<newline>'' @
     ''      classSections.forEach(section => {\<newline>'' @
     ''        section.style.display = '' @
     [CHR 0x27] @
     ''\';\<newline>'' @
     ''        section.classList.remove(\'collapsed\');\<newline>'' @
     ''      });\<newline>'' @
     ''\<newline>'' @
     ''      // Reset sidebar items\<newline>'' @
     ''      sidebarItems.forEach(item => {\<newline>'' @
     ''        item.style.display = '' @
     [CHR 0x27] @
     ''\';\<newline>'' @
     ''        item.classList.remove(\'collapsed\');\<newline>'' @
     ''      });\<newline>''\<close>

definition page_text_27 :: string where
  \<open>page_text_27 =
     ''\<newline>'' @
     ''      // Reset all rows to visible\<newline>'' @
     ''      rows.forEach(row => {\<newline>'' @
     ''        row.style.display = '' @
     [CHR 0x27] @
     ''\';\<newline>'' @
     ''      });\<newline>'' @
     ''\<newline>'' @
     ''      if (query === '' @
     [CHR 0x27] @
     ''\') {\<newline>'' @
     ''        // If no search query, show everything\<newline>'' @
     ''        return;\<newline>'' @
     ''      }\<newline>'' @
     ''\<newline>'' @
     ''      // Track which suites, classes, and cases have matches\<newline>'' @
     ''      const matchingSuites = new Set();\<newline>'' @
     ''      const matchingClasses = new Set();\<newline>'' @
     ''      const matchingCases = new Set();\<newline>'' @
     ''\<newline>'' @
     ''      // Check sidebar items for matches\<newline>'' @
     ''      sidebarItems.forEach(item => {\<newline>'' @
     ''        const label = item.querySelector(\'.sidebar-label\');\<newline>'' @
     ''        const text = label.textContent.toLowerCase();\<newline>'' @
     ''        const hasMatch = text.includes(query);\<newline>'' @
     ''\<newline>'' @
     ''        if (hasMatch) {\<newline>'' @
     ''          const suite = item.getAttribute(\'data-suite\');\<newline>'' @
     ''          const classname = item.getAttribute(\'data-classname\');\<newline>'' @
     ''          const name = item.getAttribute(\'data-name\');\<newline>''\<close>

definition page_text_28 :: string where
  \<open>page_text_28 =
     ''\<newline>'' @
     ''          if (suite) {\<newline>'' @
     ''            matchingSuites.add(suite);\<newline>'' @
     ''            if (classname) {\<newline>'' @
     ''              matchingClasses.add(suite + \':\' + classname);\<newline>'' @
     ''              if (name) {\<newline>'' @
     ''                matchingCases.add(suite + \':\' + classname + \':\' + name);\<newline>'' @
     ''              }\<newline>'' @
     ''            }\<newline>'' @
     ''          }\<newline>'' @
     ''        }\<newline>'' @
     ''      });\<newline>'' @
     ''\<newline>'' @
     ''      // Check main content rows for matches\<newline>'' @
     ''      rows.forEach(row => {\<newline>'' @
     ''        const suite = row.getAttribute(\'data-suite\');\<newline>'' @
     ''        const classname = row.getAttribute(\'data-classname\');\<newline>'' @
     ''        const name = row.getAttribute(\'data-name\');\<newline>'' @
     ''        const rowText = row.textContent.toLowerCase();\<newline>'' @
     ''        const hasMatch = rowText.includes(query);\<newline>'' @
     ''\<newline>'' @
     ''        if (hasMatch && suite && classname) {\<newline>'' @
     ''          matchingSuites.add(suite);\<newline>'' @
     ''          matchingClasses.add(suite + \':\' + classname);\<newline>'' @
     ''          if (name) {\<newline>'' @
     ''            matchingCases.add(suite + \':\' + classname + \':\' + name);\<newline>'' @
     ''          }\<newline>'' @
     ''        }\<newline>'' @
     ''      });\<newline>'' @
     ''\<newline>''\<close>

definition page_text_29 :: string where
  \<open>page_text_29 =
     ''      // Show/hide suite sections based on matches\<newline>'' @
     ''      suiteSections.forEach(section => {\<newline>'' @
     ''        const suiteName = section.getAttribute(\'data-suite\');\<newline>'' @
     ''        const hasMatch = matchingSuites.has(suiteName);\<newline>'' @
     ''\<newline>'' @
     ''        if (hasMatch) {\<newline>'' @
     ''          section.style.display = '' @
     [CHR 0x27] @
     ''\';\<newline>'' @
     ''          section.classList.remove(\'collapsed\');\<newline>'' @
     ''        } else {\<newline>'' @
     ''          section.style.display = \'none\';\<newline>'' @
     ''        }\<newline>'' @
     ''      });\<newline>'' @
     ''\<newline>'' @
     ''      // Show/hide class sections based on matches\<newline>'' @
     ''      classSections.forEach(section => {\<newline>'' @
     ''        const suiteName = section.getAttribute(\'data-suite\');\<newline>'' @
     ''        const className = section.getAttribute(\'data-classname\');\<newline>'' @
     ''        const classKey = suiteName + \':\' + className;\<newline>'' @
     ''        const hasMatch = matchingClasses.has(classKey);\<newline>'' @
     ''\<newline>'' @
     ''        if (hasMatch) {\<newline>'' @
     ''          section.style.display = '' @
     [CHR 0x27] @
     ''\';\<newline>'' @
     ''          section.classList.remove(\'collapsed\');\<newline>'' @
     ''        } else {\<newline>'' @
     ''          section.style.display = \'none\';\<newline>'' @
     ''        }\<newline>''\<close>

definition page_text_30 :: string where
  \<open>page_text_30 =
     ''      });\<newline>'' @
     ''\<newline>'' @
     ''      // Show/hide rows based on matches\<newline>'' @
     ''      rows.forEach(row => {\<newline>'' @
     ''        const suite = row.getAttribute(\'data-suite\');\<newline>'' @
     ''        const classname = row.getAttribute(\'data-classname\');\<newline>'' @
     ''        const name = row.getAttribute(\'data-name\');\<newline>'' @
     ''\<newline>'' @
     ''        let shouldShow = false;\<newline>'' @
     ''\<newline>'' @
     ''        if (suite && classname && name) {\<newline>'' @
     ''          // Case level: only show if case matches\<newline>'' @
     ''          const caseKey = suite + \':\' + classname + \':\' + name;\<newline>'' @
     ''          shouldShow = matchingCases.has(caseKey);\<newline>'' @
     ''        } else if (suite && classname) {\<newline>'' @
     ''          // Class level: show all cases in this class\<newline>'' @
     ''          const classKey = suite + \':\' + classname;\<newline>'' @
     ''          shouldShow = matchingClasses.has(classKey);\<newline>'' @
     ''        } else if (suite) {\<newline>'' @
     ''          // Suite level: show all cases in this suite\<newline>'' @
     ''          shouldShow = matchingSuites.has(suite);\<newline>'' @
     ''        }\<newline>'' @
     ''\<newline>'' @
     ''        // Hide the row if it shouldn\'t be shown\<newline>'' @
     ''        if (!shouldShow) {\<newline>'' @
     ''          row.style.display = \'none\';\<newline>'' @
     ''        } else {\<newline>'' @
     ''          row.style.display = '' @
     [CHR 0x27] @
     ''\';\<newline>''\<close>

definition page_text_31 :: string where
  \<open>page_text_31 =
     ''          // Ensure the row is visible within its proper structure\<newline>'' @
     ''          const parentClassSection = row.closest(\'.class-section\');\<newline>'' @
     ''          if (parentClassSection) {\<newline>'' @
     ''            parentClassSection.style.display = '' @
     [CHR 0x27] @
     ''\';\<newline>'' @
     ''            parentClassSection.classList.remove(\'collapsed\');\<newline>'' @
     ''          }\<newline>'' @
     ''          const parentSuiteSection = row.closest(\'.suite-section\');\<newline>'' @
     ''          if (parentSuiteSection) {\<newline>'' @
     ''            parentSuiteSection.style.display = '' @
     [CHR 0x27] @
     ''\';\<newline>'' @
     ''            parentSuiteSection.classList.remove(\'collapsed\');\<newline>'' @
     ''          }\<newline>'' @
     ''        }\<newline>'' @
     ''      });\<newline>'' @
     ''\<newline>'' @
     ''      // Update sidebar visibility\<newline>'' @
     ''      sidebarItems.forEach(item => {\<newline>'' @
     ''        const suite = item.getAttribute(\'data-suite\');\<newline>'' @
     ''        const classname = item.getAttribute(\'data-classname\');\<newline>'' @
     ''        const name = item.getAttribute(\'data-name\');\<newline>'' @
     ''\<newline>'' @
     ''        let shouldShow = false;\<newline>'' @
     ''\<newline>'' @
     ''        if (item.classList.contains(\'suite-item\')) {\<newline>'' @
     ''          shouldShow = matchingSuites.has(suite);\<newline>'' @
     ''        } else if (item.classList.contains(\'class-item\')) {\<newline>'' @
     ''          const classKey = suite + \':\' + classname;\<newline>''\<close>

definition page_text_32 :: string where
  \<open>page_text_32 =
     ''          shouldShow = matchingClasses.has(classKey);\<newline>'' @
     ''        } else if (item.classList.contains(\'case-item\')) {\<newline>'' @
     ''          const caseKey = suite + \':\' + classname + \':\' + name;\<newline>'' @
     ''          shouldShow = matchingCases.has(caseKey);\<newline>'' @
     ''        }\<newline>'' @
     ''\<newline>'' @
     ''        if (shouldShow) {\<newline>'' @
     ''          item.style.display = '' @
     [CHR 0x27] @
     ''\';\<newline>'' @
     ''          // Show parent items\<newline>'' @
     ''          let parent = item.parentElement.closest(\'.sidebar-item\');\<newline>'' @
     ''          while (parent) {\<newline>'' @
     ''            parent.style.display = '' @
     [CHR 0x27] @
     ''\';\<newline>'' @
     ''            parent.classList.remove(\'collapsed\');\<newline>'' @
     ''            parent = parent.parentElement.closest(\'.sidebar-item\');\<newline>'' @
     ''          }\<newline>'' @
     ''        } else {\<newline>'' @
     ''          item.style.display = \'none\';\<newline>'' @
     ''        }\<newline>'' @
     ''      });\<newline>'' @
     ''    });\<newline>'' @
     ''  }\<newline>'' @
     ''\<newline>'' @
     ''  // Initialize\<newline>'' @
     ''  bindRowToggle();\<newline>'' @
     ''  bindMainContentCollapse();\<newline>'' @
     ''  bindSidebarNavigation();\<newline>''\<close>

definition page_text_33 :: string where
  \<open>page_text_33 =
     ''  bindSidebarSearch();\<newline>'' @
     ''\<newline>'' @
     ''  searchEl.addEventListener(\'input\', apply);\<newline>'' @
     ''  document.querySelector(\'.sidebar-search input\').addEventListener(\'input\', apply);\<newline>'' @
     ''  filterEl.addEventListener(\'change\', apply);\<newline>'' @
     ''  sortEl.addEventListener(\'change\', apply);\<newline>'' @
     ''})();\<newline>'' @
     ''</script>\<newline>'' @
     ''\<newline>'' @
     ''</body>\<newline>'' @
     ''</html>\<newline>''\<close>

definition render_html :: "report_data \<Rightarrow> string \<Rightarrow> string \<Rightarrow> string" where
  \<open>render_html data title now =
     page_text_01 @
     escape_html title @
     page_text_02 @
     page_text_03 @
     page_text_04 @
     page_text_05 @
     page_text_06 @
     page_text_07 @
     page_text_08 @
     page_text_09 @
     page_text_10 @
     page_text_11 @
     page_text_12 @
     page_text_13 @
     page_text_14 @
     page_text_15 @
     build_sidebar data title @
     page_text_16 @
     escape_html title @
     ''</h1>\<newline>'' @
     ''    <div class="muted small">Generate Time : '' @
     escape_html now @
     page_text_17 @
     str_int (rt_suites (rd_totals data)) @
     ''</span>\<newline>'' @
     ''      <span class="pill">Test : '' @
     str_int (rt_tests (rd_totals data)) @
     ''</span>\<newline>'' @
     ''      <span class="pill ok">PASS : '' @
     str_int (rt_passed (rd_totals data)) @
     ''</span>\<newline>'' @
     ''      <span class="pill fail">FAIL : '' @
     str_int (rt_failures (rd_totals data)) @
     ''</span>\<newline>'' @
     ''      <span class="pill err">ERROR : '' @
     str_int (rt_errors (rd_totals data)) @
     ''</span>\<newline>'' @
     ''      <span class="pill skip">SKIP : '' @
     str_int (rt_skipped (rd_totals data)) @
     ''</span>\<newline>'' @
     ''      <span class="pill">Elapse Time : '' @
     seconds_fmt (rt_time (rd_totals data)) @
     page_text_18 @
     build_main_content data @
     page_text_19 @
     page_text_20 @
     page_text_21 @
     page_text_22 @
     page_text_23 @
     page_text_24 @
     page_text_25 @
     page_text_26 @
     page_text_27 @
     page_text_28 @
     page_text_29 @
     page_text_30 @
     page_text_31 @
     page_text_32 @
     page_text_33\<close>

section \<open>The command line driver\<close>

text \<open>
  \<open>main\<close> on parsed arguments. The world is the content of the files the script may
  write and the lines printed so far. \<open>can_open\<close> tells whether opening the output
  path for writing succeeds; opening creates the file or empties it. The write then
  either succeeds, or raises after a number of characters of the page have reached the
  file. The result is the exception that ended the run, if any, and the world the run
  leaves behind.
\<close>

datatype write_result = Written | Failed nat

record args =
  a_inputs :: "string list"
  a_output :: string
  a_title :: string

record world =
  w_files :: "string \<rightharpoonup> string"
  w_stdout :: "string list"

definition summary_line :: "report_totals \<Rightarrow> string" where
  "summary_line totals =
     (let passed = rt_tests totals - rt_failures totals - rt_errors totals - rt_skipped totals
      in ''Suites: '' @ str_int (rt_suites totals) @ '', Tests: '' @ str_int (rt_tests totals) @
         '', Passed: '' @ str_int passed @ '', Failures: '' @ str_int (rt_failures totals) @
         '', Errors: '' @ str_int (rt_errors totals) @ '', Skipped: '' @
         str_int (rt_skipped totals))"

definition main ::
  "junit_files \<Rightarrow> (string \<Rightarrow> bool) \<Rightarrow> write_result \<Rightarrow> string \<Rightarrow> args \<Rightarrow> world
     \<Rightarrow> exn option \<times> world" where
  "main fromfile can_open write now a w =
     (case parse_files fromfile (a_inputs a) of
        Inl e \<Rightarrow> (Some e, w)
      | Inr data \<Rightarrow>
          (let html_str = render_html data (a_title a) now
           in if \<not> can_open (a_output a) then (Some (IOError (a_output a)), w)
              else
                (let opened = w \<lparr> w_files := (w_files w)(a_output a \<mapsto> []) \<rparr>
                 in case write of
                      Failed k \<Rightarrow>
                        (Some (IOError (a_output a)),
                         opened \<lparr> w_files := (w_files opened)(a_output a \<mapsto> take k html_str) \<rparr>)
                    | Written \<Rightarrow>
                        (None,
                         opened \<lparr> w_files := (w_files opened)(a_output a \<mapsto> html_str),
                           w_stdout := w_stdout opened @
                             [''[V] Wrote '' @ a_output a, summary_line (rd_totals data)] \<rparr>))))"

section \<open>Notions used to state the properties\<close>

text \<open>
  What one input file contributes when it parses: its suites, their summaries and
  their case rows, in document order.
\<close>

definition parses :: "junit_files \<Rightarrow> string \<Rightarrow> bool" where
  "parses fromfile p = (case fromfile p of Inl e \<Rightarrow> False | Inr xml \<Rightarrow> True)"

definition suites_of :: "junit_files \<Rightarrow> string \<Rightarrow> test_suite list" where
  "suites_of fromfile p = (case fromfile p of Inl e \<Rightarrow> [] | Inr xml \<Rightarrow> xml)"

definition suite_rows :: "string \<Rightarrow> test_suite \<Rightarrow> case_row list" where
  "suite_rows p s = suite_case_rows (suite_name_of p s) (ts_children s)"

definition file_summaries :: "junit_files \<Rightarrow> string \<Rightarrow> suite_summary list" where
  "file_summaries fromfile p = map (suite_summary_of p) (suites_of fromfile p)"

definition file_rows :: "junit_files \<Rightarrow> string \<Rightarrow> case_row list" where
  "file_rows fromfile p = concat (map (suite_rows p) (suites_of fromfile p))"


text \<open>The suites of all the input files, each with the path of its file.\<close>

definition all_suites :: "junit_files \<Rightarrow> string list \<Rightarrow> (string \<times> test_suite) list" where
  "all_suites fromfile paths = concat (map (\<lambda>p. map (Pair p) (suites_of fromfile p)) paths)"

text \<open>
  A text is safe for a pattern when no part of it that runs to its end begins with the
  pattern or is the beginning of the pattern: the pattern does not occur in the text,
  and no occurrence can start in the text and end in what is appended to it.
\<close>

fun safe :: "string \<Rightarrow> string \<Rightarrow> bool" where
  "safe p [] = True"
| "safe p (c # cs) = (\<not> prefix p (c # cs) \<and> \<not> prefix (c # cs) p \<and> safe p cs)"

definition markup :: string where
  "markup = ''<script>alert(1)</script>''"

section \<open>Sample inputs\<close>

text \<open>A case whose result list holds an Error followed by a Failure.\<close>

definition case_error_then_failure :: test_case where
  "case_error_then_failure =
     \<lparr> tc_classname = Some ''pkg.T'', tc_name = Some ''t'', tc_time = Some 1,
       tc_result = [\<lparr> r_kind = Error, r_message = Some ''boom'', r_text = None \<rparr>,
                    \<lparr> r_kind = Failure, r_message = Some ''bad'', r_text = None \<rparr>] \<rparr>"

text \<open>
  A suite element \<open>Suite1\<close> that has none of the numeric attributes, with two cases:
  \<open>test_a\<close> passes in 1 second, \<open>test_b\<close> has no classname and fails in 2.5 seconds
  (the getters of this suite give 2 tests, 1 failure, no error, none skipped and 3.5
  seconds). The sample file system holds it in \<open>a.xml\<close>, a copy named \<open>Suite2\<close> in
  \<open>b.xml\<close>, a second \<open>Suite1\<close> with the one skipped case \<open>test_c\<close> in \<open>c.xml\<close>, a
  \<open>Suite1\<close> that declares \<open>tests="5"\<close> and holds one case in \<open>d.xml\<close>, the suite of
  \<open>a.xml\<close> with the attributes \<open>tests="2"\<close> and \<open>failures="1"\<close> in \<open>e.xml\<close>, a \<open>Suite1\<close>
  without attributes and without cases in \<open>f.xml\<close>, and a \<open>Suite1\<close> whose one case is
  named \<open><script>alert(1)</script>\<close> in \<open>x.xml\<close>; no other path parses.
\<close>

definition sample_case_a :: test_case where
  "sample_case_a =
     \<lparr> tc_classname = Some ''pkg.A'', tc_name = Some ''test_a'', tc_time = Some 1,
       tc_result = [] \<rparr>"

definition sample_case_b :: test_case where
  "sample_case_b =
     \<lparr> tc_classname = None, tc_name = Some ''test_b'', tc_time = Some 2.5,
       tc_result = [\<lparr> r_kind = Failure, r_message = Some ''assertion failed'',
                      r_text = Some ''trace'' \<rparr>] \<rparr>"

definition sample_case_c :: test_case where
  "sample_case_c =
     \<lparr> tc_classname = Some ''pkg.A'', tc_name = Some ''test_c'', tc_time = Some 0.5,
       tc_result = [\<lparr> r_kind = Skipped, r_message = None, r_text = None \<rparr>] \<rparr>"

definition sample_suite :: test_suite where
  "sample_suite =
     \<lparr> ts_name = Some ''Suite1'', ts_tests = None, ts_failures = None, ts_errors = None,
       ts_skipped = None, ts_time = None,
       ts_children = [Case sample_case_a, Case sample_case_b] \<rparr>"

definition sample_files :: junit_files where
  "sample_files p =
     (if p = ''a.xml'' then Inr [sample_suite]
      else if p = ''b.xml'' then Inr [sample_suite \<lparr> ts_name := Some ''Suite2'' \<rparr>]
      else if p = ''c.xml'' then Inr [sample_suite \<lparr> ts_children := [Case sample_case_c] \<rparr>]
      else if p = ''d.xml'' then
        Inr [sample_suite \<lparr> ts_tests := Some 5, ts_children := [Case sample_case_a] \<rparr>]
      else if p = ''e.xml'' then
        Inr [sample_suite \<lparr> ts_tests := Some 2, ts_failures := Some 1 \<rparr>]
      else if p = ''f.xml'' then Inr [sample_suite \<lparr> ts_children := [] \<rparr>]
      else if p = ''x.xml'' then
        Inr [sample_suite \<lparr> ts_children :=
          [Case (sample_case_a \<lparr> tc_name := Some ''<script>alert(1)</script>'' \<rparr>)] \<rparr>]
      else Inl (ParseError p))"





section \<open>Facts about parse_files\<close>

lemma parse_suites_append:
  "parse_suites p ss (sd, cr) =
     (sd @ map (suite_summary_of p) ss, cr @ concat (map (suite_rows p) ss))"
  by (induction ss arbitrary: sd cr) (auto simp: suite_rows_def)

lemma parse_paths_ok:
  "list_all (parses fromfile) ps \<Longrightarrow>
   parse_paths fromfile ps (sd, cr) =
     Inr (sd @ concat (map (file_summaries fromfile) ps),
          cr @ concat (map (file_rows fromfile) ps))"
proof (induction ps arbitrary: sd cr)
  case Nil
  then show ?case by simp
next
  case (Cons p ps)
  then obtain xml where x: "fromfile p = Inr xml"
    by (auto simp: parses_def split: sum.splits)
  with Cons show ?case
    by (simp add: parse_suites_append file_summaries_def file_rows_def suites_of_def)
qed

lemma parse_paths_fails:
  "\<not> list_all (parses fromfile) ps \<Longrightarrow> \<exists>e. parse_paths fromfile ps acc = Inl e"
proof (induction ps arbitrary: acc)
  case Nil
  then show ?case by simp
next
  case (Cons p ps)
  show ?case
  proof (cases "fromfile p")
    case (Inl e)
    then show ?thesis by simp
  next
    case (Inr xml)
    then have "parses fromfile p"
      by (simp add: parses_def)
    with Cons.prems have "\<not> list_all (parses fromfile) ps"
      by simp
    from Cons.IH [OF this] Inr show ?thesis by simp
  qed
qed

lemma parse_files_ok:
  "list_all (parses fromfile) ps \<Longrightarrow>
   parse_files fromfile ps =
     Inr \<lparr> rd_suites = concat (map (file_summaries fromfile) ps),
           rd_cases = concat (map (file_rows fromfile) ps),
           rd_totals = totals_of (concat (map (file_summaries fromfile) ps)) \<rparr>"
  by (simp add: parse_files_def parse_paths_ok)

lemma parse_files_fails:
  "\<not> list_all (parses fromfile) ps \<Longrightarrow> \<exists>e. parse_files fromfile ps = Inl e"
  using parse_paths_fails [of fromfile ps "([], [])"] by (auto simp: parse_files_def)

lemma parse_files_Inr_parses:
  "parse_files fromfile ps = Inr data \<Longrightarrow> list_all (parses fromfile) ps"
  using parse_files_fails [of fromfile ps] by auto

lemma summary_name: "ss_name (suite_summary_of p s) = suite_name_of p s"
  by (simp add: suite_summary_of_def Let_def split: prod.splits)


section \<open>Status classification\<close>

lemma status_of_results_dropWhile:
  "status_of_results rs =
     (case dropWhile (\<lambda>r. r_kind r = OtherResult) rs of
        [] \<Rightarrow> Ok
      | r # _ \<Rightarrow> if r_kind r = Failure then Fail else if r_kind r = Error then Err else Skip)"
proof (induction rs)
  case Nil
  then show ?case by simp
next
  case (Cons r rs)
  then show ?case by (cases "r_kind r") simp_all
qed

text \<open>
  Claim C2, as the code has it: the status of a case is decided by the first entry of
  its result list that is a Failure, an Error or a Skipped (fail, error and skip
  respectively), and is pass when there is no such entry. A Failure that comes after
  an Error or a Skipped does not make the case a failure.
\<close>

theorem C2_first_result_decides:
  "get_test_status c =
     (case dropWhile (\<lambda>r. r_kind r = OtherResult) (tc_result c) of
        [] \<Rightarrow> Ok
      | r # _ \<Rightarrow> if r_kind r = Failure then Fail else if r_kind r = Error then Err else Skip)"
  unfolding get_test_status_def by (rule status_of_results_dropWhile)

text \<open>
  Claim C2 as stated fails: a case whose results are an Error followed by a Failure
  holds both kinds, and its status is error, not fail.
\<close>

theorem C2_error_before_failure:
  "Failure \<in> set (map r_kind (tc_result case_error_then_failure)) \<and>
   Error \<in> set (map r_kind (tc_result case_error_then_failure)) \<and>
   get_test_status case_error_then_failure = Err \<and>
   get_test_status case_error_then_failure \<noteq> Fail"
  by (simp add: get_test_status_def case_error_then_failure_def)

section \<open>Time formatting\<close>

lemma floor_div_60_bounds:
  fixes sec :: real
  shows "0 \<le> sec - 60 * real_of_int \<lfloor>sec / 60\<rfloor>" "sec - 60 * real_of_int \<lfloor>sec / 60\<rfloor> < 60"
proof -
  have a: "real_of_int \<lfloor>sec / 60\<rfloor> \<le> sec / 60" by (rule of_int_floor_le)
  have b: "sec / 60 < real_of_int \<lfloor>sec / 60\<rfloor> + 1" by linarith
  from a show "0 \<le> sec - 60 * real_of_int \<lfloor>sec / 60\<rfloor>" by linarith
  from b show "sec - 60 * real_of_int \<lfloor>sec / 60\<rfloor> < 60" by linarith
qed

text \<open>
  Claim C7: below 60 seconds the time is printed with two decimals and an \<open>s\<close>; from
  60 seconds on, as the whole minutes, an \<open>m\<close>, and the remaining seconds (at least 0
  and below 60) with two decimals and an \<open>s\<close>. 45.2 gives \<open>45.20s\<close>, 125.5 gives
  \<open>2m5.50s\<close> and 0 gives \<open>0.00s\<close>.
\<close>

theorem C7_seconds_fmt:
  "seconds_fmt sec =
     (if sec < 60 then fmt2f sec @ ''s''
      else str_int \<lfloor>sec / 60\<rfloor> @ ''m'' @ fmt2f (sec - 60 * real_of_int \<lfloor>sec / 60\<rfloor>) @ ''s'') \<and>
   0 \<le> sec - 60 * real_of_int \<lfloor>sec / 60\<rfloor> \<and>
   sec - 60 * real_of_int \<lfloor>sec / 60\<rfloor> < 60 \<and>
   seconds_fmt 45.2 = ''45.20s'' \<and>
   seconds_fmt 125.5 = ''2m5.50s'' \<and>
   seconds_fmt 0 = ''0.00s''"
proof -
  have shape: "seconds_fmt sec =
     (if sec < 60 then fmt2f sec @ ''s''
      else str_int \<lfloor>sec / 60\<rfloor> @ ''m'' @ fmt2f (sec - 60 * real_of_int \<lfloor>sec / 60\<rfloor>) @ ''s'')"
    by (simp add: seconds_fmt_def Let_def not_less mult.commute)
  have e1: "seconds_fmt 45.2 = ''45.20s''"
    by (simp add: seconds_fmt_def fmt2f_def round_half_even_def str_nat.simps digit_char_def Let_def)
  have e2: "seconds_fmt 125.5 = ''2m5.50s''"
    by (simp add: seconds_fmt_def fmt2f_def round_half_even_def str_nat.simps str_int_def
        digit_char_def Let_def)
  have e3: "seconds_fmt 0 = ''0.00s''"
    by (simp add: seconds_fmt_def fmt2f_def round_half_even_def str_nat.simps digit_char_def Let_def)
  from shape floor_div_60_bounds [of sec] e1 e2 e3 show ?thesis by blast
qed

section \<open>The passed equation\<close>



text \<open>The sample file \<open>a.xml\<close>.\<close>

lemma sample_a_parses: "list_all (parses sample_files) [''a.xml'']"
  by (simp add: parses_def sample_files_def)

lemma sample_a_rows:
  "file_rows sample_files ''a.xml'' =
     [case_row_of ''Suite1'' sample_case_a, case_row_of ''Suite1'' sample_case_b]"
  by (simp add: file_rows_def suites_of_def suite_rows_def suite_name_of_def str_or_def
      sample_files_def sample_suite_def)


section \<open>Omitted attributes\<close>












section \<open>The run and the output file\<close>








section \<open>Facts about the grouping\<close>

lemma od_get_update:
  "od_get (od_update k f [] m) k' = (if k' = k then f (od_get m k) else od_get m k')"
  by (induction m) (auto simp: od_get_def)

lemma keys_od_update:
  "map fst (od_update k f d m) = (if k \<in> set (map fst m) then map fst m else map fst m @ [k])"
  by (induction m) (auto simp: rev_image_eqI)

lemma distinct_keys_od_update:
  "distinct (map fst m) \<Longrightarrow> distinct (map fst (od_update k f d m))"
  by (simp add: keys_od_update)

lemma group_cases_snoc:
  "group_cases item (cs @ [c]) = add_entry item (group_cases item cs) c"
  by (simp add: group_cases_def)

lemma group_cases_Nil: "group_cases item [] = []"
  by (simp add: group_cases_def)

lemma od_get_Nil: "od_get [] k = []"
  by (simp add: od_get_def)

lemma od_get_add_entry:
  "od_get (add_entry item g c) n =
     (if n = cr_suite c then od_update (class_key c) (\<lambda>l. l @ [item c]) [] (od_get g n)
      else od_get g n)"
  by (simp add: add_entry_def od_get_update)

text \<open>
  The list kept for a suite and a class holds the entries of the cases of that suite
  and class, in the order of the input.
\<close>

lemma group_class_list:
  "od_get (od_get (group_cases item cs) n) k =
     map item (filter (\<lambda>c. cr_suite c = n \<and> class_key c = k) cs)"
proof (induction cs arbitrary: n k rule: rev_induct)
  case Nil
  then show ?case by (simp add: group_cases_Nil od_get_Nil)
next
  case (snoc c cs)
  then show ?case
    by (simp add: group_cases_snoc od_get_add_entry od_get_update)
qed

lemma group_suite_keys:
  "set (map fst (group_cases item cs)) = cr_suite ` set cs"
proof (induction cs rule: rev_induct)
  case Nil
  then show ?case by (simp add: group_cases_Nil)
next
  case (snoc c cs)
  then show ?case
    by (auto simp: group_cases_snoc add_entry_def keys_od_update)
qed


lemma group_class_keys:
  "set (map fst (od_get (group_cases item cs) n)) =
     class_key ` {c \<in> set cs. cr_suite c = n}"
proof (induction cs arbitrary: n rule: rev_induct)
  case Nil
  then show ?case by (simp add: group_cases_Nil od_get_Nil)
next
  case (snoc c cs)
  show ?case
  proof (cases "n = cr_suite c")
    case True
    with snoc [of "cr_suite c"] show ?thesis
      by (auto simp: group_cases_snoc od_get_add_entry keys_od_update)
  next
    case False
    with snoc [of n] show ?thesis
      by (auto simp: group_cases_snoc od_get_add_entry)
  qed
qed

lemma group_class_distinct: "distinct (map fst (od_get (group_cases item cs) n))"
proof (induction cs arbitrary: n rule: rev_induct)
  case Nil
  then show ?case by (simp add: group_cases_Nil od_get_Nil)
next
  case (snoc c cs)
  then show ?case
    by (simp add: group_cases_snoc od_get_add_entry distinct_keys_od_update)
qed






lemma class_subtotals:
  "subtotals_of (od_get (od_get (group_cases id cs) n) k) =
     subtotals_of (filter (\<lambda>c. cr_suite c = n \<and> class_key c = k) cs)"
  by (simp add: group_class_list)

section \<open>The order of the input files\<close>

lemma mset_concat_map: "mset (concat (map f zs)) = (\<Sum>z\<in>#mset zs. mset (f z))"
  by (induction zs) simp_all

lemma mset_concat_map_perm:
  "mset xs = mset ys \<Longrightarrow> mset (concat (map f xs)) = mset (concat (map f ys))"
  by (simp add: mset_concat_map)

lemma sum_list_map_perm:
  fixes f :: "'a \<Rightarrow> int"
  assumes "mset xs = mset ys"
  shows "sum_list (map f xs) = sum_list (map f ys)"
proof -
  have "sum_list (map f xs) = sum_mset (image_mset f (mset xs))"
    by (simp only: sum_mset_sum_list [symmetric] mset_map)
  also have "\<dots> = sum_mset (image_mset f (mset ys))"
    by (simp only: assms)
  also have "\<dots> = sum_list (map f ys)"
    by (simp only: sum_mset_sum_list [symmetric] mset_map)
  finally show ?thesis .
qed

lemma totals_of_counts_mset:
  assumes "mset sd' = mset sd"
  shows "rt_suites (totals_of sd') = rt_suites (totals_of sd) \<and>
    rt_tests (totals_of sd') = rt_tests (totals_of sd) \<and>
    rt_failures (totals_of sd') = rt_failures (totals_of sd) \<and>
    rt_errors (totals_of sd') = rt_errors (totals_of sd) \<and>
    rt_skipped (totals_of sd') = rt_skipped (totals_of sd) \<and>
    rt_passed (totals_of sd') = rt_passed (totals_of sd)"
proof -
  from assms have l: "length sd' = length sd" by (rule mset_eq_length)
  show ?thesis
    by (simp add: totals_of_def Let_def l sum_list_map_perm [OF assms])
qed

lemma parses_perm:
  "mset paths' = mset paths \<Longrightarrow>
   list_all (parses fromfile) paths' = list_all (parses fromfile) paths"
  using mset_eq_setD [of paths' paths] by (simp add: list_all_iff)


text \<open>
  Claim C8, as the code has it: for a permutation of the input paths, parse_files
  succeeds on both lists or on neither; when it succeeds, the two results hold the
  same suite summaries and the same case rows, each list in the order of its input
  files, and the same counts in the totals.
\<close>

theorem C8_same_up_to_order:
  assumes "mset paths' = mset paths" and "parse_files fromfile paths = Inr data"
  shows "\<exists>data'. parse_files fromfile paths' = Inr data' \<and>
           mset (rd_suites data') = mset (rd_suites data) \<and>
           mset (rd_cases data') = mset (rd_cases data) \<and>
           rt_suites (rd_totals data') = rt_suites (rd_totals data) \<and>
           rt_tests (rd_totals data') = rt_tests (rd_totals data) \<and>
           rt_failures (rd_totals data') = rt_failures (rd_totals data) \<and>
           rt_errors (rd_totals data') = rt_errors (rd_totals data) \<and>
           rt_skipped (rd_totals data') = rt_skipped (rd_totals data) \<and>
           rt_passed (rd_totals data') = rt_passed (rd_totals data)"
proof -
  let ?sd = "\<lambda>ps. concat (map (file_summaries fromfile) ps)"
  let ?cr = "\<lambda>ps. concat (map (file_rows fromfile) ps)"
  let ?d = "\<lambda>ps. \<lparr> rd_suites = ?sd ps, rd_cases = ?cr ps, rd_totals = totals_of (?sd ps) \<rparr>"
  from assms(2) have ok: "list_all (parses fromfile) paths"
    by (rule parse_files_Inr_parses)
  with assms(1) have ok': "list_all (parses fromfile) paths'"
    using parses_perm [of paths' paths fromfile] by simp
  from parse_files_ok [OF ok] assms(2) have d: "data = ?d paths" by simp
  have p': "parse_files fromfile paths' = Inr (?d paths')"
    by (rule parse_files_ok [OF ok'])
  have m: "mset (?sd paths') = mset (?sd paths)"
    by (rule mset_concat_map_perm [OF assms(1)])
  have c: "mset (?cr paths') = mset (?cr paths)"
    by (rule mset_concat_map_perm [OF assms(1)])
  show ?thesis
  proof (intro exI [of _ "?d paths'"] conjI)
    show "parse_files fromfile paths' = Inr (?d paths')" by (rule p')
  qed (use totals_of_counts_mset [OF m] in \<open>simp_all add: d m c\<close>)
qed

theorem C8_same_up_to_order_witness:
  "mset [''b.xml'', ''a.xml''] = mset [''a.xml'', ''b.xml''] \<and>
   (\<exists>data data'. parse_files sample_files [''a.xml'', ''b.xml''] = Inr data \<and>
      parse_files sample_files [''b.xml'', ''a.xml''] = Inr data' \<and>
      mset (rd_suites data') = mset (rd_suites data) \<and>
      mset (rd_cases data') = mset (rd_cases data) \<and>
      rt_tests (rd_totals data') = rt_tests (rd_totals data) \<and>
      rt_passed (rd_totals data') = rt_passed (rd_totals data))"
proof -
  have p: "mset [''b.xml'', ''a.xml''] = mset [''a.xml'', ''b.xml'']"
    by (simp add: add_mset_commute)
  have ok: "list_all (parses sample_files) [''a.xml'', ''b.xml'']"
    by (simp add: parses_def sample_files_def)
  from parse_files_ok [OF ok] obtain data where
    d: "parse_files sample_files [''a.xml'', ''b.xml''] = Inr data" by blast
  from C8_same_up_to_order [OF p d] obtain data' where
    "parse_files sample_files [''b.xml'', ''a.xml''] = Inr data'"
    "mset (rd_suites data') = mset (rd_suites data)"
    "mset (rd_cases data') = mset (rd_cases data)"
    "rt_tests (rd_totals data') = rt_tests (rd_totals data)"
    "rt_passed (rd_totals data') = rt_passed (rd_totals data)"
    by (elim exE conjE)
  with p d show ?thesis by (intro conjI exI [of _ data] exI [of _ data']) 
qed

text \<open>
  Claim C8 as stated fails: \<open>a.xml\<close> and \<open>b.xml\<close> declare the distinct suite names
  \<open>Suite1\<close> and \<open>Suite2\<close>, and the two orders of the paths give different results (the
  suite summaries come in the order of the files).
\<close>

theorem C8_order_matters:
  "\<not> isl (parse_files sample_files [''a.xml'', ''b.xml'']) \<and>
   \<not> isl (parse_files sample_files [''b.xml'', ''a.xml'']) \<and>
   map ss_name (rd_suites (projr (parse_files sample_files [''a.xml'', ''b.xml''])))
     = [''Suite1'', ''Suite2''] \<and>
   map ss_name (rd_suites (projr (parse_files sample_files [''b.xml'', ''a.xml''])))
     = [''Suite2'', ''Suite1''] \<and>
   parse_files sample_files [''a.xml'', ''b.xml''] \<noteq> parse_files sample_files [''b.xml'', ''a.xml'']"
proof -
  have oka: "list_all (parses sample_files) [''a.xml'', ''b.xml'']"
    and okb: "list_all (parses sample_files) [''b.xml'', ''a.xml'']"
    by (simp_all add: parses_def sample_files_def)
  have n: "map ss_name (file_summaries sample_files ''a.xml'') = [''Suite1'']"
    "map ss_name (file_summaries sample_files ''b.xml'') = [''Suite2'']"
    by (simp_all add: file_summaries_def suites_of_def sample_files_def summary_name
        suite_name_of_def str_or_def sample_suite_def)
  have a: "map ss_name (rd_suites (projr (parse_files sample_files [''a.xml'', ''b.xml''])))
     = [''Suite1'', ''Suite2'']"
    by (simp add: parse_files_ok [OF oka] n)
  have b: "map ss_name (rd_suites (projr (parse_files sample_files [''b.xml'', ''a.xml''])))
     = [''Suite2'', ''Suite1'']"
    by (simp add: parse_files_ok [OF okb] n)
  from a b have "parse_files sample_files [''a.xml'', ''b.xml'']
      \<noteq> parse_files sample_files [''b.xml'', ''a.xml'']"
    by auto
  with a b show ?thesis
    by (simp add: parse_files_ok [OF oka] parse_files_ok [OF okb])
qed

section \<open>Two files that declare the same suite name\<close>



lemma in_group:
  assumes "c \<in> set cs"
  shows "cr_suite c \<in> set (map fst (group_cases item cs))"
    and "class_key c \<in> set (map fst (od_get (group_cases item cs) (cr_suite c)))"
    and "item c \<in> set (od_get (od_get (group_cases item cs) (cr_suite c)) (class_key c))"
  using assms group_suite_keys [of item cs] group_class_keys [of item cs "cr_suite c"]
  by (auto simp: group_class_list)





section \<open>Where a row stands in the page\<close>

lemma sublist_in_append: "sublist x y \<Longrightarrow> sublist x (a @ y @ b)"
  unfolding sublist_def by (metis append.assoc)

lemma sublist_trans: "sublist x y \<Longrightarrow> sublist y z \<Longrightarrow> sublist x z"
  unfolding sublist_def by (metis append.assoc)

lemma sublist_concat_map: "x \<in> set xs \<Longrightarrow> sublist (f x) (concat (map f xs))"
proof -
  assume "x \<in> set xs"
  then obtain ys zs where "xs = ys @ x # zs"
    by (auto simp: in_set_conv_decomp)
  then have "concat (map f xs) = concat (map f ys) @ f x @ concat (map f zs)"
    by simp
  then show ?thesis
    unfolding sublist_def by blast
qed

lemma row_in_class_section:
  assumes "c \<in> set class_cases"
  shows "sublist (build_row_html c) (class_section_html suite classname class_cases)"
proof -
  from assms have "c \<in> set (sort_key cr_name class_cases)" by simp
  then have "sublist (build_row_html c) (concat (map build_row_html (sort_key cr_name class_cases)))"
    by (rule sublist_concat_map)
  then show ?thesis
    unfolding class_section_html_def by (rule sublist_in_append)
qed

lemma class_in_suite_section:
  assumes "k \<in> set (map fst classes)"
  shows "sublist (class_section_html suite k (od_get classes k)) (suite_section_html suite classes)"
proof -
  from assms have "k \<in> set (sort (map fst classes))" by simp
  then have "sublist ((\<lambda>classname. class_section_html suite classname (od_get classes classname)) k)
      (concat (map (\<lambda>classname. class_section_html suite classname (od_get classes classname))
        (sort (map fst classes))))"
    by (rule sublist_concat_map)
  then show ?thesis
    unfolding suite_section_html_def by (simp add: sublist_in_append)
qed

lemma suite_in_main:
  assumes "n \<in> set (map fst (group_cases id (rd_cases data)))"
  shows "sublist (suite_section_html n (od_get (group_cases id (rd_cases data)) n))
           (build_main_content data)"
proof -
  let ?g = "group_cases id (rd_cases data)"
  from assms have "n \<in> set (sort (map fst ?g))" by simp
  then have "sublist ((\<lambda>suite. suite_section_html suite (od_get ?g suite)) n)
      (concat (map (\<lambda>suite. suite_section_html suite (od_get ?g suite)) (sort (map fst ?g))))"
    by (rule sublist_concat_map)
  then show ?thesis
    by (simp add: build_main_content_def Let_def)
qed





section \<open>A case without a classname\<close>

lemma sublist_skip: "sublist x r \<Longrightarrow> sublist x (l @ r)"
  unfolding sublist_def by (metis append.assoc)

lemma escape_html_Nil: "escape_html [] = []"
  by (simp add: escape_html_def)

lemma escape_html_Default: "escape_html ''Default'' = ''Default''"
  by (simp add: escape_html_def escape_char_def)

lemma row_empty_classname_attr:
  assumes "cr_classname c = []"
  shows \<open>sublist ''data-classname="" '' (build_row_html c)\<close>
proof -
  have key: \<open>\<And>rest. sublist ''data-classname="" ''
      (''" data-classname="'' @ [] @ ''" \<newline>'' @ rest)\<close>
    by (simp add: sublist_Cons_right)
  show ?thesis
    unfolding build_row_html_def assms escape_html_Nil
    by (intro key sublist_skip)
qed

lemma row_empty_classname_cell:
  assumes "cr_classname c = []"
  shows \<open>sublist ''<div class="nowrap" title=""></div>'' (build_row_html c)\<close>
proof -
  have key: \<open>\<And>rest. sublist ''<div class="nowrap" title=""></div>''
      (''      <div class="nowrap" title="'' @ [] @ ''">'' @ [] @ ''</div>\<newline>'' @ rest)\<close>
    by (simp add: sublist_Cons_right)
  show ?thesis
    unfolding build_row_html_def assms escape_html_Nil
    by (intro key sublist_skip)
qed

lemma class_header_Default_attr:
  \<open>sublist ''data-classname="Default"'' (class_header_html suite ''Default'' t)\<close>
proof -
  have key: \<open>\<And>rest. sublist ''data-classname="Default"''
      (''" data-classname="'' @ ''Default'' @ ''">\<newline>'' @ rest)\<close>
    by (simp add: sublist_Cons_right)
  show ?thesis
    unfolding class_header_html_def escape_html_Default
    by (intro key sublist_skip)
qed

lemma class_header_Default_text:
  \<open>sublist ''<span class="item-text">Default</span>'' (class_header_html suite ''Default'' t)\<close>
proof -
  have key: \<open>\<And>rest. sublist ''<span class="item-text">Default</span>''
      (''              <span class="item-text">'' @ ''Default'' @ ''</span>\<newline>'' @ rest)\<close>
    by (simp add: sublist_Cons_right)
  show ?thesis
    unfolding class_header_html_def escape_html_Default
    by (intro key sublist_skip)
qed

lemma sidebar_class_Default_attr:
  \<open>sublist ''data-classname="Default"'' (sidebar_class_open suite ''Default'')\<close>
proof -
  have key: \<open>\<And>rest. sublist ''data-classname="Default"''
      (''" data-classname="'' @ ''Default'' @ ''">\<newline>'' @ rest)\<close>
    by (simp add: sublist_Cons_right)
  show ?thesis
    unfolding sidebar_class_open_def escape_html_Default
    by (intro key sublist_skip)
qed

lemma sidebar_class_Default_text:
  \<open>sublist ''<span class="item-text">Default</span>'' (sidebar_class_open suite ''Default'')\<close>
proof -
  have key: \<open>\<And>rest. sublist ''<span class="item-text">Default</span>''
      (''        <span class="item-text">'' @ ''Default'' @ ''</span>\<newline>'' @ rest)\<close>
    by (simp add: sublist_Cons_right)
  show ?thesis
    unfolding sidebar_class_open_def escape_html_Default
    by (intro key sublist_skip)
qed

lemma sidebar_case_Default_attr:
  \<open>sublist ''data-classname="Default"'' (sidebar_case_html suite ''Default'' name)\<close>
proof -
  have key: \<open>\<And>rest. sublist ''data-classname="Default"''
      (''" data-classname="'' @ ''Default'' @ ''" data-name="'' @ rest)\<close>
    by (simp add: sublist_Cons_right)
  show ?thesis
    unfolding sidebar_case_html_def escape_html_Default
    by (intro key sublist_skip)
qed


lemma case_in_sidebar_class:
  assumes "name \<in> set names"
  shows "sublist (sidebar_case_html suite k name) (sidebar_class_html suite k names)"
proof -
  from assms have "name \<in> set (sort names)" by simp
  then have "sublist (sidebar_case_html suite k name)
      (concat (map (sidebar_case_html suite k) (sort names)))"
    by (rule sublist_concat_map)
  then show ?thesis
    unfolding sidebar_class_html_def by (rule sublist_in_append)
qed

lemma class_in_sidebar_suite:
  assumes "k \<in> set (map fst classes)"
  shows "sublist (sidebar_class_html suite k (od_get classes k)) (sidebar_suite_html suite classes)"
proof -
  from assms have "k \<in> set (sort (map fst classes))" by simp
  then have "sublist ((\<lambda>classname. sidebar_class_html suite classname (od_get classes classname)) k)
      (concat (map (\<lambda>classname. sidebar_class_html suite classname (od_get classes classname))
        (sort (map fst classes))))"
    by (rule sublist_concat_map)
  then show ?thesis
    unfolding sidebar_suite_html_def by (simp add: sublist_in_append)
qed

lemma suite_in_sidebar:
  assumes "n \<in> set (map fst (group_cases cr_name (rd_cases data)))"
  shows "sublist (sidebar_suite_html n (od_get (group_cases cr_name (rd_cases data)) n))
           (build_sidebar data title)"
proof -
  let ?g = "group_cases cr_name (rd_cases data)"
  from assms have "n \<in> set (sort (map fst ?g))" by simp
  then have "sublist ((\<lambda>suite. sidebar_suite_html suite (od_get ?g suite)) n)
      (concat (map (\<lambda>suite. sidebar_suite_html suite (od_get ?g suite)) (sort (map fst ?g))))"
    by (rule sublist_concat_map)
  then show ?thesis
    by (simp add: build_sidebar_def Let_def sublist_in_append)
qed

lemma case_in_sidebar:
  assumes "c \<in> set (rd_cases data)"
  shows "sublist (sidebar_case_html (cr_suite c) (class_key c) (cr_name c))
           (build_sidebar data title)"
proof -
  let ?g = "group_cases cr_name (rd_cases data)"
  let ?classes = "od_get ?g (cr_suite c)"
  from in_group(3) [OF assms, of cr_name]
  have "sublist (sidebar_case_html (cr_suite c) (class_key c) (cr_name c))
      (sidebar_class_html (cr_suite c) (class_key c) (od_get ?classes (class_key c)))"
    by (rule case_in_sidebar_class)
  moreover from in_group(2) [OF assms, of cr_name]
  have "sublist (sidebar_class_html (cr_suite c) (class_key c) (od_get ?classes (class_key c)))
      (sidebar_suite_html (cr_suite c) ?classes)"
    by (rule class_in_sidebar_suite)
  moreover from in_group(1) [OF assms, of cr_name]
  have "sublist (sidebar_suite_html (cr_suite c) ?classes) (build_sidebar data title)"
    by (rule suite_in_sidebar)
  ultimately show ?thesis
    by (blast intro: sublist_trans)
qed

lemma class_section_in_main:
  assumes "c \<in> set (rd_cases data)"
  shows "sublist (class_section_html (cr_suite c) (class_key c)
             (od_get (od_get (group_cases id (rd_cases data)) (cr_suite c)) (class_key c)))
           (build_main_content data)"
proof -
  let ?classes = "od_get (group_cases id (rd_cases data)) (cr_suite c)"
  from in_group(2) [OF assms, of id]
  have "sublist (class_section_html (cr_suite c) (class_key c) (od_get ?classes (class_key c)))
      (suite_section_html (cr_suite c) ?classes)"
    by (rule class_in_suite_section)
  moreover from in_group(1) [OF assms, of id]
  have "sublist (suite_section_html (cr_suite c) ?classes) (build_main_content data)"
    by (rule suite_in_main)
  ultimately show ?thesis by (rule sublist_trans)
qed

lemma case_row_in_suite_rows:
  "Case tc \<in> set chs \<Longrightarrow> case_row_of n tc \<in> set (suite_case_rows n chs)"
  by (induction n chs rule: suite_case_rows.induct) auto

lemma case_row_in_data:
  assumes "parse_files fromfile paths = Inr data" and "p \<in> set paths"
    and "fromfile p = Inr xml" and "s \<in> set xml" and "Case tc \<in> set (ts_children s)"
  shows "case_row_of (suite_name_of p s) tc \<in> set (rd_cases data)"
proof -
  from assms(1) have ok: "list_all (parses fromfile) paths"
    by (rule parse_files_Inr_parses)
  from parse_files_ok [OF ok] assms(1)
  have "rd_cases data = concat (map (file_rows fromfile) paths)" by simp
  moreover from assms(3,4,5) have "case_row_of (suite_name_of p s) tc \<in> set (file_rows fromfile p)"
    by (auto simp: file_rows_def suites_of_def suite_rows_def intro: case_row_in_suite_rows)
  ultimately show ?thesis using assms(2) by auto
qed

text \<open>
  Claim C10: a case whose XML omits the classname is stored with the empty classname;
  the main panel lists its row in the class section headed \<open>Default\<close> of its suite, and
  the sidebar lists its name under the class entry \<open>Default\<close>; the row itself carries
  the empty string in its \<open>data-classname\<close> attribute and in its classname cell. The
  classname recorded in the row differs from the heading it stands under.
\<close>

theorem C10_default_classname:
  assumes "parse_files fromfile paths = Inr data" and "p \<in> set paths"
    and "fromfile p = Inr xml" and "s \<in> set xml" and "Case tc \<in> set (ts_children s)"
    and "tc_classname tc = None"
    and "c = case_row_of (suite_name_of p s) tc"
    and "class_cases = od_get (od_get (group_cases id (rd_cases data)) (cr_suite c)) ''Default''"
  shows \<open>c \<in> set (rd_cases data) \<and> cr_classname c = [] \<and> cr_suite c = suite_name_of p s \<and>
         c \<in> set class_cases \<and>
         sublist (build_row_html c) (class_section_html (cr_suite c) ''Default'' class_cases) \<and>
         sublist (class_section_html (cr_suite c) ''Default'' class_cases) (build_main_content data) \<and>
         prefix (class_header_html (cr_suite c) ''Default'' (subtotals_of class_cases))
           (class_section_html (cr_suite c) ''Default'' class_cases) \<and>
         sublist ''data-classname="Default"''
           (class_header_html (cr_suite c) ''Default'' (subtotals_of class_cases)) \<and>
         sublist ''<span class="item-text">Default</span>''
           (class_header_html (cr_suite c) ''Default'' (subtotals_of class_cases)) \<and>
         sublist (sidebar_case_html (cr_suite c) ''Default'' (cr_name c)) (build_sidebar data title) \<and>
         sublist ''data-classname="Default"'' (sidebar_case_html (cr_suite c) ''Default'' (cr_name c)) \<and>
         sublist ''data-classname="" '' (build_row_html c) \<and>
         sublist ''<div class="nowrap" title=""></div>'' (build_row_html c) \<and>
         cr_classname c \<noteq> ''Default''\<close>
proof -
  from assms(1-5,7) have m: "c \<in> set (rd_cases data)"
    by (simp add: case_row_in_data)
  from assms(6,7) have e: "cr_classname c = []"
    by (simp add: case_row_of_def str_or_def)
  then have k: "class_key c = ''Default''"
    by (simp add: class_key_def)
  from assms(7) have n: "cr_suite c = suite_name_of p s"
    by (simp add: case_row_of_def)
  from in_group(3) [OF m, of id] k assms(8) have i: "c \<in> set class_cases"
    by simp
  from i have r: "sublist (build_row_html c) (class_section_html (cr_suite c) ''Default'' class_cases)"
    by (rule row_in_class_section)
  from class_section_in_main [OF m] k assms(8)
  have cs: "sublist (class_section_html (cr_suite c) ''Default'' class_cases) (build_main_content data)"
    by simp
  have h: "prefix (class_header_html (cr_suite c) ''Default'' (subtotals_of class_cases))
           (class_section_html (cr_suite c) ''Default'' class_cases)"
    by (simp add: class_section_html_def)
  from case_in_sidebar [OF m, of title] k
  have sb: "sublist (sidebar_case_html (cr_suite c) ''Default'' (cr_name c)) (build_sidebar data title)"
    by simp
  from e have d: "cr_classname c \<noteq> ''Default''" by simp
  from m e n i r cs h class_header_Default_attr class_header_Default_text sb
    sidebar_case_Default_attr row_empty_classname_attr [OF e] row_empty_classname_cell [OF e] d
  show ?thesis by (intro conjI)
qed

theorem C10_default_classname_witness:
  \<open>tc_classname sample_case_b = None \<and>
   Case sample_case_b \<in> set (ts_children sample_suite) \<and>
   sample_files ''a.xml'' = Inr [sample_suite] \<and>
   (\<exists>data. parse_files sample_files [''a.xml''] = Inr data \<and>
      case_row_of ''Suite1'' sample_case_b \<in> set (rd_cases data) \<and>
      cr_classname (case_row_of ''Suite1'' sample_case_b) = [] \<and>
      od_get (od_get (group_cases id (rd_cases data)) ''Suite1'') ''Default'' =
        [case_row_of ''Suite1'' sample_case_b] \<and>
      sublist (build_row_html (case_row_of ''Suite1'' sample_case_b))
        (class_section_html ''Suite1'' ''Default'' [case_row_of ''Suite1'' sample_case_b]) \<and>
      sublist (class_section_html ''Suite1'' ''Default'' [case_row_of ''Suite1'' sample_case_b])
        (build_main_content data) \<and>
      sublist (sidebar_case_html ''Suite1'' ''Default'' ''test_b'') (build_sidebar data ''JUnit Report'') \<and>
      sublist ''data-classname="" '' (build_row_html (case_row_of ''Suite1'' sample_case_b)))\<close>
proof -
  let ?c = "case_row_of ''Suite1'' sample_case_b"
  have f: "sample_files ''a.xml'' = Inr [sample_suite]"
    by (simp add: sample_files_def)
  have t: "tc_classname sample_case_b = None"
    by (simp add: sample_case_b_def)
  have ch: "Case sample_case_b \<in> set (ts_children sample_suite)"
    by (simp add: sample_suite_def)
  have n: "suite_name_of ''a.xml'' sample_suite = ''Suite1''"
    by (simp add: suite_name_of_def str_or_def sample_suite_def)
  have cn: "cr_suite ?c = ''Suite1''" "cr_name ?c = ''test_b''"
    by (simp_all add: case_row_of_def str_or_def sample_case_b_def)
  let ?d = "\<lparr> rd_suites = concat (map (file_summaries sample_files) [''a.xml'']),
           rd_cases = concat (map (file_rows sample_files) [''a.xml'']),
           rd_totals = totals_of (concat (map (file_summaries sample_files) [''a.xml''])) \<rparr>"
  have p: "parse_files sample_files [''a.xml''] = Inr ?d"
    by (rule parse_files_ok [OF sample_a_parses])
  have g: "od_get (od_get (group_cases id (rd_cases ?d)) ''Suite1'') ''Default'' = [?c]"
    by (simp add: sample_a_rows group_class_list class_key_def case_row_of_def str_or_def
        sample_case_a_def sample_case_b_def)
  have i: "''a.xml'' \<in> set [''a.xml'']" and j: "sample_suite \<in> set [sample_suite]"
    by simp_all
  have c: "?c = case_row_of (suite_name_of ''a.xml'' sample_suite) sample_case_b"
    by (simp add: n)
  have cc: "[?c] = od_get (od_get (group_cases id (rd_cases ?d)) (cr_suite ?c)) ''Default''"
    by (simp only: g cn)
  note inst = C10_default_classname [where fromfile = sample_files and paths = "[''a.xml'']"
      and data = ?d and p = "''a.xml''" and xml = "[sample_suite]" and s = sample_suite
      and tc = sample_case_b and c = ?c and class_cases = "[?c]" and title = "''JUnit Report''",
      OF p i f j ch t c cc]
  from inst have 1: "?c \<in> set (rd_cases ?d)" by (elim conjE)
  from inst have 2: "cr_classname ?c = []" by (elim conjE)
  from inst have 3: "sublist (build_row_html ?c) (class_section_html (cr_suite ?c) ''Default'' [?c])"
    by (elim conjE)
  from inst have 4: "sublist (class_section_html (cr_suite ?c) ''Default'' [?c]) (build_main_content ?d)"
    by (elim conjE)
  from inst have 5: "sublist (sidebar_case_html (cr_suite ?c) ''Default'' (cr_name ?c))
      (build_sidebar ?d ''JUnit Report'')"
    by (elim conjE)
  from inst have 6: \<open>sublist ''data-classname="" '' (build_row_html ?c)\<close>
    by (elim conjE)
  from 3 4 5 have 7: "sublist (build_row_html ?c) (class_section_html ''Suite1'' ''Default'' [?c])"
    "sublist (class_section_html ''Suite1'' ''Default'' [?c]) (build_main_content ?d)"
    "sublist (sidebar_case_html ''Suite1'' ''Default'' ''test_b'') (build_sidebar ?d ''JUnit Report'')"
    by (simp_all only: cn)
  from t ch f p 1 2 g 7 6 show ?thesis
    by (intro conjI exI [of _ ?d])
qed

section \<open>Totals and subtotals\<close>



lemma in_all_suites:
  "(p, s) \<in> set (all_suites fromfile paths) \<longleftrightarrow> p \<in> set paths \<and> s \<in> set (suites_of fromfile p)"
  by (auto simp: all_suites_def)













section \<open>Escaping\<close>



lemma safe_no_hd: "p \<noteq> [] \<Longrightarrow> hd p \<notin> set w \<Longrightarrow> safe p w"
  by (induction w) (auto simp: prefix_def neq_Nil_conv)


lemma safe_markup_no_lt: "CHR ''<'' \<notin> set w \<Longrightarrow> safe markup w"
  by (rule safe_no_hd) (simp_all add: markup_def)




lemma digit_char_digit: "digit_char d \<in> set ''0123456789''"
  by (simp add: digit_char_def)




lemma safe_digit: "safe markup [digit_char d]"
  using digit_char_digit [of d] by (intro safe_markup_no_lt) auto
























































lemma sublist_here: "sublist x l \<Longrightarrow> sublist x (l @ r)"
  unfolding sublist_def by (metis append.assoc)












end
